theory Spec2Isabelle
  imports Complex_Main
begin

section \<open>Numbers, vectors and matrices\<close>

text \<open>
  Python floats and numpy arrays of floats are modelled over the reals: rounding, the
  \<^verbatim>\<open>float32\<close> cast of a measurement and the IEEE values inf and nan are outside the model.
  A numpy vector is a list of reals, a matrix a list of rows. A two-component vector
  (a measurement, a gaze vector, the slice \<^verbatim>\<open>state[:2]\<close>) is a pair.
\<close>

datatype error = IndexError | AttributeError | LinAlgError | ZeroDivisionError | ValueError

type_synonym vec = "real list"
type_synonym mat = "real list list"
type_synonym vec2 = "real \<times> real"

definition zeros :: "nat \<Rightarrow> vec" where
  "zeros n = replicate n 0"

definition eye :: "nat \<Rightarrow> mat" where
  "eye n = map (\<lambda>i. map (\<lambda>j. if i = j then 1 else 0) [0..<n]) [0..<n]"

definition dot :: "vec \<Rightarrow> vec \<Rightarrow> real" where
  "dot u v = sum_list (map2 (*) u v)"

definition mat_vec :: "mat \<Rightarrow> vec \<Rightarrow> vec" where
  "mat_vec A v = map (\<lambda>row. dot row v) A"

definition mat_T :: "mat \<Rightarrow> mat" where
  "mat_T A = (case A of [] \<Rightarrow> [] | r # _ \<Rightarrow> map (\<lambda>j. map (\<lambda>row. row ! j) A) [0..<length r])"

definition mat_mul :: "mat \<Rightarrow> mat \<Rightarrow> mat" where
  "mat_mul A B = map (\<lambda>row. map (\<lambda>col. dot row col) (mat_T B)) A"

definition vec_add :: "vec \<Rightarrow> vec \<Rightarrow> vec" where
  "vec_add u v = map2 (+) u v"

definition vec_sub :: "vec \<Rightarrow> vec \<Rightarrow> vec" where
  "vec_sub u v = map2 (-) u v"

definition mat_add :: "mat \<Rightarrow> mat \<Rightarrow> mat" where
  "mat_add A B = map2 vec_add A B"

definition mat_sub :: "mat \<Rightarrow> mat \<Rightarrow> mat" where
  "mat_sub A B = map2 vec_sub A B"

definition mat_scale :: "mat \<Rightarrow> real \<Rightarrow> mat" where
  "mat_scale A c = map (map (\<lambda>a. a * c)) A"

text \<open>
  \<^verbatim>\<open>np.linalg.inv\<close> on the innovation covariance, which is 2 by 2 because \<^verbatim>\<open>H\<close> has two
  rows. A singular matrix raises \<^verbatim>\<open>LinAlgError\<close>.
\<close>

fun linalg_inv :: "mat \<Rightarrow> error + mat" where
  "linalg_inv [[a, b], [c, d]] =
     (if a * d - b * c = 0 then Inl LinAlgError
      else Inr [[d / (a * d - b * c), - b / (a * d - b * c)],
                [- c / (a * d - b * c), a / (a * d - b * c)]])"
| "linalg_inv _ = Inl LinAlgError"

text \<open>\<^verbatim>\<open>np.clip(x, lo, hi)\<close> is \<^verbatim>\<open>minimum(hi, maximum(x, lo))\<close>.\<close>

definition clip :: "real \<Rightarrow> real \<Rightarrow> real \<Rightarrow> real" where
  "clip x lo hi = min hi (max x lo)"

text \<open>\<^verbatim>\<open>np.mean\<close> of a non-empty list of numbers.\<close>

definition mean :: "real list \<Rightarrow> real" where
  "mean xs = sum_list xs / real (length xs)"

text \<open>Python's \<^verbatim>\<open>int(x)\<close> on a float truncates towards zero.\<close>

definition py_int :: "real \<Rightarrow> int" where
  "py_int x = (if 0 \<le> x then \<lfloor>x\<rfloor> else \<lceil>x\<rceil>)"

section \<open>KalmanFilter2D (gaze_tracker.py)\<close>

text \<open>The transition matrix F and the measurement matrix H are the same in every instance.\<close>

definition F :: mat where
  "F = [[1, 0, 1, 0],
        [0, 1, 0, 1],
        [0, 0, 1, 0],
        [0, 0, 0, 1]]"

definition H :: mat where
  "H = [[1, 0, 0, 0],
        [0, 1, 0, 0]]"

record KalmanFilter2D =
  state :: vec
  base_process_noise :: real
  base_measurement_noise :: real
  Q :: mat
  R :: mat
  P :: mat
  initialized :: bool

definition KalmanFilter2D_init :: "real \<Rightarrow> real \<Rightarrow> KalmanFilter2D" where
  "KalmanFilter2D_init process_noise measurement_noise =
     \<lparr> state = zeros 4,
       base_process_noise = process_noise,
       base_measurement_noise = measurement_noise,
       Q = mat_scale (eye 4) process_noise,
       R = mat_scale (eye 2) measurement_noise,
       P = eye 4,
       initialized = False \<rparr>"

text \<open>
  A method that mutates the filter returns its value together with the filter afterwards.
  \<^verbatim>\<open>state[:2]\<close> is the pair of the first two state components.
\<close>

definition position :: "vec \<Rightarrow> vec2" where
  "position s = (s ! 0, s ! 1)"

definition KalmanFilter2D_predict :: "KalmanFilter2D \<Rightarrow> vec2 \<times> KalmanFilter2D" where
  "KalmanFilter2D_predict kf =
     (if \<not> initialized kf then (position (state kf), kf)
      else
        let kf1 = kf\<lparr>state := mat_vec F (state kf)\<rparr>;
            kf2 = kf1\<lparr>P := mat_add (mat_mul (mat_mul F (P kf1)) (mat_T F)) (Q kf1)\<rparr>
        in (position (state kf2), kf2))"

text \<open>
  \<^verbatim>\<open>update\<close>: the first measurement is stored and returned as it is. Afterwards: predict,
  Kalman gain, state and covariance update. When \<^verbatim>\<open>np.linalg.inv\<close> raises, the filter
  keeps what the predict step wrote.
\<close>

definition KalmanFilter2D_update ::
  "KalmanFilter2D \<Rightarrow> vec2 \<Rightarrow> (error + vec2) \<times> KalmanFilter2D" where
  "KalmanFilter2D_update kf measurement =
     (if \<not> initialized kf then
        (Inr measurement,
         kf\<lparr>state := (state kf)[0 := fst measurement, 1 := snd measurement],
            initialized := True\<rparr>)
      else
        let kf1 = snd (KalmanFilter2D_predict kf);
            S = mat_add (mat_mul (mat_mul H (P kf1)) (mat_T H)) (R kf1)
        in case linalg_inv S of
             Inl e \<Rightarrow> (Inl e, kf1)
           | Inr S_inv \<Rightarrow>
               let K = mat_mul (mat_mul (P kf1) (mat_T H)) S_inv;
                   innovation = vec_sub [fst measurement, snd measurement] (mat_vec H (state kf1));
                   kf2 = kf1\<lparr>state := vec_add (state kf1) (mat_vec K innovation)\<rparr>;
                   kf3 = kf2\<lparr>P := mat_mul (mat_sub (eye 4) (mat_mul K H)) (P kf2)\<rparr>
               in (Inr (position (state kf3)), kf3))"

definition KalmanFilter2D_reset :: "KalmanFilter2D \<Rightarrow> KalmanFilter2D" where
  "KalmanFilter2D_reset kf = kf\<lparr>state := zeros 4, P := eye 4, initialized := False\<rparr>"

definition KalmanFilter2D_get_velocity :: "KalmanFilter2D \<Rightarrow> real" where
  "KalmanFilter2D_get_velocity kf = sqrt ((state kf ! 2)\<^sup>2 + (state kf ! 3)\<^sup>2)"

section \<open>AdaptiveKalmanFilter2D (gaze_tracker.py)\<close>

text \<open>
  The adaptive filter has the fields of the plain filter and, in addition, the velocity
  thresholds, the two multipliers, the velocity history and the two monitoring values.
\<close>

record AdaptiveKalmanFilter2D = KalmanFilter2D +
  low_velocity_threshold :: real
  high_velocity_threshold :: real
  dwell_measurement_multiplier :: real
  rapid_measurement_multiplier :: real
  velocity_history :: "real list"
  velocity_history_size :: nat
  current_measurement_noise :: real
  current_process_noise :: real

definition AdaptiveKalmanFilter2D_init ::
  "real \<Rightarrow> real \<Rightarrow> real \<Rightarrow> real \<Rightarrow> real \<Rightarrow> real \<Rightarrow> AdaptiveKalmanFilter2D" where
  "AdaptiveKalmanFilter2D_init process_noise measurement_noise low high dwell rapid =
     \<lparr> state = zeros 4,
       base_process_noise = process_noise,
       base_measurement_noise = measurement_noise,
       Q = mat_scale (eye 4) process_noise,
       R = mat_scale (eye 2) measurement_noise,
       P = eye 4,
       initialized = False,
       low_velocity_threshold = low,
       high_velocity_threshold = high,
       dwell_measurement_multiplier = dwell,
       rapid_measurement_multiplier = rapid,
       velocity_history = [],
       velocity_history_size = 5,
       current_measurement_noise = measurement_noise,
       current_process_noise = process_noise \<rparr>"

definition get_velocity :: "AdaptiveKalmanFilter2D \<Rightarrow> real" where
  "get_velocity kf = sqrt ((state kf ! 2)\<^sup>2 + (state kf ! 3)\<^sup>2)"

definition get_smoothed_velocity :: "AdaptiveKalmanFilter2D \<Rightarrow> real" where
  "get_smoothed_velocity kf =
     (if velocity_history kf = [] then get_velocity kf
      else mean (velocity_history kf))"

text \<open>\<^verbatim>\<open>append\<close>, then \<^verbatim>\<open>pop(0)\<close> when the list has grown beyond the history size.\<close>

definition update_velocity_history :: "AdaptiveKalmanFilter2D \<Rightarrow> AdaptiveKalmanFilter2D" where
  "update_velocity_history kf =
     (let kf1 = kf\<lparr>velocity_history := velocity_history kf @ [get_velocity kf]\<rparr>
      in if length (velocity_history kf1) > velocity_history_size kf1
         then kf1\<lparr>velocity_history := tl (velocity_history kf1)\<rparr>
         else kf1)"

definition get_adaptive_measurement_noise ::
  "AdaptiveKalmanFilter2D \<Rightarrow> mat \<times> AdaptiveKalmanFilter2D" where
  "get_adaptive_measurement_noise kf =
     (let velocity = get_smoothed_velocity kf;
          multiplier =
            (if velocity \<le> low_velocity_threshold kf then dwell_measurement_multiplier kf
             else if velocity \<ge> high_velocity_threshold kf then rapid_measurement_multiplier kf
             else
               let t = (velocity - low_velocity_threshold kf) /
                       (high_velocity_threshold kf - low_velocity_threshold kf);
                   smooth_t = t * t * (3 - 2 * t)
               in dwell_measurement_multiplier kf +
                  smooth_t * (rapid_measurement_multiplier kf - dwell_measurement_multiplier kf));
          kf1 = kf\<lparr>current_measurement_noise := base_measurement_noise kf * multiplier\<rparr>
      in (mat_scale (eye 2) (current_measurement_noise kf1), kf1))"

definition get_adaptive_process_noise ::
  "AdaptiveKalmanFilter2D \<Rightarrow> mat \<times> AdaptiveKalmanFilter2D" where
  "get_adaptive_process_noise kf =
     (let velocity = get_smoothed_velocity kf;
          velocity_factor = clip (velocity / high_velocity_threshold kf) 0.5 2.0;
          kf1 = kf\<lparr>current_process_noise := base_process_noise kf * velocity_factor\<rparr>
      in (mat_scale (eye 4) (current_process_noise kf1), kf1))"

definition AdaptiveKalmanFilter2D_predict ::
  "AdaptiveKalmanFilter2D \<Rightarrow> vec2 \<times> AdaptiveKalmanFilter2D" where
  "AdaptiveKalmanFilter2D_predict kf =
     (if \<not> initialized kf then (position (state kf), kf)
      else
        let (q, kf0) = get_adaptive_process_noise kf;
            kf1 = kf0\<lparr>Q := q\<rparr>;
            kf2 = kf1\<lparr>state := mat_vec F (state kf1)\<rparr>;
            kf3 = kf2\<lparr>P := mat_add (mat_mul (mat_mul F (P kf2)) (mat_T F)) (Q kf2)\<rparr>
        in (position (state kf3), kf3))"

definition AdaptiveKalmanFilter2D_update ::
  "AdaptiveKalmanFilter2D \<Rightarrow> vec2 \<Rightarrow> (error + vec2) \<times> AdaptiveKalmanFilter2D" where
  "AdaptiveKalmanFilter2D_update kf measurement =
     (if \<not> initialized kf then
        (Inr measurement,
         kf\<lparr>state := (state kf)[0 := fst measurement, 1 := snd measurement],
            initialized := True\<rparr>)
      else
        let kf1 = snd (AdaptiveKalmanFilter2D_predict kf);
            (r, kf2) = get_adaptive_measurement_noise kf1;
            kf3 = kf2\<lparr>R := r\<rparr>;
            S = mat_add (mat_mul (mat_mul H (P kf3)) (mat_T H)) (R kf3)
        in case linalg_inv S of
             Inl e \<Rightarrow> (Inl e, kf3)
           | Inr S_inv \<Rightarrow>
               let K = mat_mul (mat_mul (P kf3) (mat_T H)) S_inv;
                   innovation = vec_sub [fst measurement, snd measurement] (mat_vec H (state kf3));
                   kf4 = kf3\<lparr>state := vec_add (state kf3) (mat_vec K innovation)\<rparr>;
                   kf5 = kf4\<lparr>P := mat_mul (mat_sub (eye 4) (mat_mul K H)) (P kf4)\<rparr>;
                   kf6 = update_velocity_history kf5
               in (Inr (position (state kf6)), kf6))"

definition AdaptiveKalmanFilter2D_reset :: "AdaptiveKalmanFilter2D \<Rightarrow> AdaptiveKalmanFilter2D" where
  "AdaptiveKalmanFilter2D_reset kf =
     kf\<lparr>state := zeros 4, P := eye 4, initialized := False, velocity_history := [],
        current_measurement_noise := base_measurement_noise kf,
        current_process_noise := base_process_noise kf\<rparr>"

definition is_dwelling :: "AdaptiveKalmanFilter2D \<Rightarrow> bool" where
  "is_dwelling kf \<longleftrightarrow> get_smoothed_velocity kf \<le> low_velocity_threshold kf"

section \<open>Landmarks and exceptions\<close>

text \<open>
  A face is the list of its landmarks. A landmark has the attributes \<^verbatim>\<open>x\<close> and \<^verbatim>\<open>y\<close>;
  \<open>None\<close> stands for an object without that attribute, on which the access raises
  \<^verbatim>\<open>AttributeError\<close>. Indexing beyond the end of the list raises \<^verbatim>\<open>IndexError\<close>.
  A computation that may raise returns \<open>Inl\<close> of the error.
\<close>

record landmark =
  lm_x :: "real option"
  lm_y :: "real option"

definition ebind :: "error + 'a \<Rightarrow> ('a \<Rightarrow> error + 'b) \<Rightarrow> error + 'b" where
  "ebind m f = (case m of Inl e \<Rightarrow> Inl e | Inr v \<Rightarrow> f v)"

definition getitem :: "'a list \<Rightarrow> nat \<Rightarrow> error + 'a" where
  "getitem xs i = (if i < length xs then Inr (xs ! i) else Inl IndexError)"

definition attr :: "'a option \<Rightarrow> error + 'a" where
  "attr a = (case a of None \<Rightarrow> Inl AttributeError | Some v \<Rightarrow> Inr v)"

section \<open>EyeGazeTracker (gaze_tracker.py)\<close>

definition LEFT_EYE_OUTER :: nat where "LEFT_EYE_OUTER = 33"
definition LEFT_EYE_INNER :: nat where "LEFT_EYE_INNER = 133"
definition LEFT_IRIS_CENTER :: nat where "LEFT_IRIS_CENTER = 468"
definition RIGHT_EYE_OUTER :: nat where "RIGHT_EYE_OUTER = 362"
definition RIGHT_EYE_INNER :: nat where "RIGHT_EYE_INNER = 263"
definition RIGHT_IRIS_CENTER :: nat where "RIGHT_IRIS_CENTER = 473"
definition LEFT_EYE_TOP :: nat where "LEFT_EYE_TOP = 159"
definition LEFT_EYE_BOTTOM :: nat where "LEFT_EYE_BOTTOM = 145"
definition RIGHT_EYE_TOP :: nat where "RIGHT_EYE_TOP = 386"
definition RIGHT_EYE_BOTTOM :: nat where "RIGHT_EYE_BOTTOM = 374"

record GazeData =
  left_gaze :: "vec2 option"
  right_gaze :: "vec2 option"
  combined_gaze :: "vec2 option"
  screen_point :: "(int \<times> int) option"
  left_iris_center :: "vec2 option"
  right_iris_center :: "vec2 option"
  confidence :: real

definition GazeData_init :: GazeData where
  "GazeData_init =
     \<lparr> left_gaze = None, right_gaze = None, combined_gaze = None, screen_point = None,
       left_iris_center = None, right_iris_center = None, confidence = 0 \<rparr>"

text \<open>
  The tracker's fields that gaze estimation reads or writes. The camera, the landmark
  detector, the drawing code and the frame timing are its environment: a frame reaches
  \<open>process_frame\<close> as the detector's list of faces with the frame's width and height.
\<close>

record EyeGazeTracker =
  screen_width :: int
  screen_height :: int
  smoothing_factor :: real
  sensitivity_x :: real
  sensitivity_y :: real
  offset_x :: real
  offset_y :: real
  left_kalman :: KalmanFilter2D
  right_kalman :: KalmanFilter2D
  combined_kalman :: KalmanFilter2D
  prev_screen_point :: "(int \<times> int) option"

definition EyeGazeTracker_init ::
  "int \<Rightarrow> int \<Rightarrow> real \<Rightarrow> real \<Rightarrow> real \<Rightarrow> real \<Rightarrow> real \<Rightarrow> real \<Rightarrow> real \<Rightarrow> EyeGazeTracker" where
  "EyeGazeTracker_init width height process_noise measurement_noise smoothing sens_x sens_y off_x off_y =
     \<lparr> screen_width = width, screen_height = height, smoothing_factor = smoothing,
       sensitivity_x = sens_x, sensitivity_y = sens_y, offset_x = off_x, offset_y = off_y,
       left_kalman = KalmanFilter2D_init process_noise measurement_noise,
       right_kalman = KalmanFilter2D_init process_noise measurement_noise,
       combined_kalman = KalmanFilter2D_init process_noise measurement_noise,
       prev_screen_point = None \<rparr>"

text \<open>The body of the \<^verbatim>\<open>try\<close> block of \<^verbatim>\<open>_get_iris_position\<close>.\<close>

definition get_iris_position_try ::
  "EyeGazeTracker \<Rightarrow> landmark list \<Rightarrow> nat \<Rightarrow> nat \<Rightarrow> nat \<Rightarrow> int \<Rightarrow> int
     \<Rightarrow> error + (vec2 option \<times> vec2 option)" where
  "get_iris_position_try tr landmarks eye_outer_idx eye_inner_idx iris_center_idx
       frame_width frame_height =
     ebind (getitem landmarks eye_outer_idx) (\<lambda>outer.
     ebind (getitem landmarks eye_inner_idx) (\<lambda>inner.
     ebind (attr (lm_x outer)) (\<lambda>outer_x.
     ebind (attr (lm_y outer)) (\<lambda>outer_y.
     ebind (attr (lm_x inner)) (\<lambda>inner_x.
     ebind (attr (lm_y inner)) (\<lambda>inner_y.
       let outer_px = (outer_x * real_of_int frame_width, outer_y * real_of_int frame_height);
           inner_px = (inner_x * real_of_int frame_width, inner_y * real_of_int frame_height);
           eye_width = sqrt ((fst inner_px - fst outer_px)\<^sup>2 + (snd inner_px - snd outer_px)\<^sup>2)
       in if eye_width < 1 then Inr (None, None)
          else
            let eye_center = ((fst outer_px + fst inner_px) / 2, (snd outer_px + snd inner_px) / 2)
            in ebind
                 (if iris_center_idx < length landmarks then
                    ebind (getitem landmarks iris_center_idx) (\<lambda>iris.
                    ebind (attr (lm_x iris)) (\<lambda>iris_x.
                    ebind (attr (lm_y iris)) (\<lambda>iris_y.
                      Inr (iris_x * real_of_int frame_width, iris_y * real_of_int frame_height))))
                  else
                    ebind
                      (if eye_outer_idx = LEFT_EYE_OUTER then
                         ebind (getitem landmarks LEFT_EYE_TOP) (\<lambda>top.
                         ebind (getitem landmarks LEFT_EYE_BOTTOM) (\<lambda>bottom. Inr (top, bottom)))
                       else
                         ebind (getitem landmarks RIGHT_EYE_TOP) (\<lambda>top.
                         ebind (getitem landmarks RIGHT_EYE_BOTTOM) (\<lambda>bottom. Inr (top, bottom))))
                      (\<lambda>(top, bottom).
                         ebind (attr (lm_x top)) (\<lambda>top_x.
                         ebind (attr (lm_y top)) (\<lambda>top_y.
                         ebind (attr (lm_x bottom)) (\<lambda>bottom_x.
                         ebind (attr (lm_y bottom)) (\<lambda>bottom_y.
                           let top_px = (top_x * real_of_int frame_width,
                                         top_y * real_of_int frame_height);
                               bottom_px = (bottom_x * real_of_int frame_width,
                                            bottom_y * real_of_int frame_height)
                           in Inr ((fst outer_px + fst inner_px + fst top_px + fst bottom_px) / 4,
                                   (snd outer_px + snd inner_px + snd top_px + snd bottom_px) / 4)))))))
                 (\<lambda>iris_px.
                    let gaze_x = (fst iris_px - fst eye_center) / (eye_width / 2) * sensitivity_x tr;
                        gaze_y = (snd iris_px - snd eye_center) / (eye_width / 4) * sensitivity_y tr;
                        gaze_x = gaze_x + offset_x tr;
                        gaze_y = gaze_y + offset_y tr;
                        gaze_x = clip gaze_x (-1) 1;
                        gaze_y = clip gaze_y (-1) 1
                    in Inr (Some (gaze_x, gaze_y), Some iris_px))))))))"

text \<open>\<^verbatim>\<open>except (IndexError, AttributeError)\<close>: these two give \<^verbatim>\<open>(None, None)\<close>.\<close>

definition get_iris_position ::
  "EyeGazeTracker \<Rightarrow> landmark list \<Rightarrow> nat \<Rightarrow> nat \<Rightarrow> nat \<Rightarrow> int \<Rightarrow> int
     \<Rightarrow> error + (vec2 option \<times> vec2 option)" where
  "get_iris_position tr landmarks eye_outer_idx eye_inner_idx iris_center_idx
       frame_width frame_height =
     (case get_iris_position_try tr landmarks eye_outer_idx eye_inner_idx iris_center_idx
             frame_width frame_height of
        Inl IndexError \<Rightarrow> Inr (None, None)
      | Inl AttributeError \<Rightarrow> Inr (None, None)
      | Inl e \<Rightarrow> Inl e
      | Inr r \<Rightarrow> Inr r)"

definition detect_blink_try :: "landmark list \<Rightarrow> int \<Rightarrow> error + (bool \<times> bool)" where
  "detect_blink_try landmarks frame_height =
     ebind (getitem landmarks LEFT_EYE_TOP) (\<lambda>lt.
     ebind (attr (lm_y lt)) (\<lambda>lt_y.
     ebind (getitem landmarks LEFT_EYE_BOTTOM) (\<lambda>lb.
     ebind (attr (lm_y lb)) (\<lambda>lb_y.
     ebind (getitem landmarks RIGHT_EYE_TOP) (\<lambda>rt.
     ebind (attr (lm_y rt)) (\<lambda>rt_y.
     ebind (getitem landmarks RIGHT_EYE_BOTTOM) (\<lambda>rb.
     ebind (attr (lm_y rb)) (\<lambda>rb_y.
       let left_top = lt_y * real_of_int frame_height;
           left_bottom = lb_y * real_of_int frame_height;
           left_ear = \<bar>left_bottom - left_top\<bar>;
           right_top = rt_y * real_of_int frame_height;
           right_bottom = rb_y * real_of_int frame_height;
           right_ear = \<bar>right_bottom - right_top\<bar>;
           blink_threshold = 5;
           left_blink = (left_ear < blink_threshold);
           right_blink = (right_ear < blink_threshold)
       in Inr (left_blink, right_blink)))))))))"

definition detect_blink :: "landmark list \<Rightarrow> int \<Rightarrow> error + (bool \<times> bool)" where
  "detect_blink landmarks frame_height =
     (case detect_blink_try landmarks frame_height of
        Inl IndexError \<Rightarrow> Inr (False, False)
      | Inl AttributeError \<Rightarrow> Inr (False, False)
      | Inl e \<Rightarrow> Inl e
      | Inr r \<Rightarrow> Inr r)"

text \<open>
  \<open>process_frame\<close> is given block by block. Each block takes the tracker and the frame's
  \<^verbatim>\<open>gaze_data\<close> so far and returns the \<^verbatim>\<open>gaze_data\<close> (or the exception that leaves
  \<open>process_frame\<close>) with the tracker afterwards.

  The left eye and the right eye: estimate the gaze unless the eye blinks, and pass an
  estimate through the eye's Kalman filter.
\<close>

definition left_eye ::
  "EyeGazeTracker \<Rightarrow> landmark list \<Rightarrow> int \<Rightarrow> int \<Rightarrow> bool \<Rightarrow> GazeData
     \<Rightarrow> (error + GazeData) \<times> EyeGazeTracker" where
  "left_eye tr landmarks frame_width frame_height left_blink gd =
     (if \<not> left_blink then
        (case get_iris_position tr landmarks LEFT_EYE_OUTER LEFT_EYE_INNER LEFT_IRIS_CENTER
                frame_width frame_height of
           Inl e \<Rightarrow> (Inl e, tr)
         | Inr (gaze, iris) \<Rightarrow>
             (case gaze of
                None \<Rightarrow> (Inr gd, tr)
              | Some g \<Rightarrow>
                  (case KalmanFilter2D_update (left_kalman tr) g of
                     (Inl e, kf) \<Rightarrow> (Inl e, tr\<lparr>left_kalman := kf\<rparr>)
                   | (Inr filtered, kf) \<Rightarrow>
                       (Inr (gd\<lparr>left_gaze := Some filtered, left_iris_center := iris\<rparr>),
                        tr\<lparr>left_kalman := kf\<rparr>))))
      else (Inr gd, tr))"

definition right_eye ::
  "EyeGazeTracker \<Rightarrow> landmark list \<Rightarrow> int \<Rightarrow> int \<Rightarrow> bool \<Rightarrow> GazeData
     \<Rightarrow> (error + GazeData) \<times> EyeGazeTracker" where
  "right_eye tr landmarks frame_width frame_height right_blink gd =
     (if \<not> right_blink then
        (case get_iris_position tr landmarks RIGHT_EYE_OUTER RIGHT_EYE_INNER RIGHT_IRIS_CENTER
                frame_width frame_height of
           Inl e \<Rightarrow> (Inl e, tr)
         | Inr (gaze, iris) \<Rightarrow>
             (case gaze of
                None \<Rightarrow> (Inr gd, tr)
              | Some g \<Rightarrow>
                  (case KalmanFilter2D_update (right_kalman tr) g of
                     (Inl e, kf) \<Rightarrow> (Inl e, tr\<lparr>right_kalman := kf\<rparr>)
                   | (Inr filtered, kf) \<Rightarrow>
                       (Inr (gd\<lparr>right_gaze := Some filtered, right_iris_center := iris\<rparr>),
                        tr\<lparr>right_kalman := kf\<rparr>))))
      else (Inr gd, tr))"

text \<open>Combining the gaze of both eyes (\<^verbatim>\<open>if\<close> / \<^verbatim>\<open>elif\<close> / \<^verbatim>\<open>elif\<close>).\<close>

definition combine_gaze :: "EyeGazeTracker \<Rightarrow> GazeData \<Rightarrow> (error + GazeData) \<times> EyeGazeTracker" where
  "combine_gaze tr gd =
     (case (left_gaze gd, right_gaze gd) of
        (Some l, Some r) \<Rightarrow>
          (let combined = ((fst l + fst r) / 2, (snd l + snd r) / 2)
           in case KalmanFilter2D_update (combined_kalman tr) combined of
                (Inl e, kf) \<Rightarrow> (Inl e, tr\<lparr>combined_kalman := kf\<rparr>)
              | (Inr filtered, kf) \<Rightarrow>
                  (Inr (gd\<lparr>combined_gaze := Some filtered, confidence := 1.0\<rparr>),
                   tr\<lparr>combined_kalman := kf\<rparr>))
      | (Some l, None) \<Rightarrow> (Inr (gd\<lparr>combined_gaze := Some l, confidence := 0.7\<rparr>), tr)
      | (None, Some r) \<Rightarrow> (Inr (gd\<lparr>combined_gaze := Some r, confidence := 0.7\<rparr>), tr)
      | (None, None) \<Rightarrow> (Inr gd, tr))"

text \<open>Mapping to screen coordinates, with exponential smoothing against the previous point.\<close>

definition map_to_screen :: "EyeGazeTracker \<Rightarrow> GazeData \<Rightarrow> GazeData \<times> EyeGazeTracker" where
  "map_to_screen tr gd =
     (case combined_gaze gd of
        None \<Rightarrow> (gd, tr)
      | Some g \<Rightarrow>
          let screen_x = py_int ((fst g + 1) / 2 * real_of_int (screen_width tr));
              screen_y = py_int ((snd g + 1) / 2 * real_of_int (screen_height tr));
              (screen_x, screen_y) =
                (case prev_screen_point tr of
                   None \<Rightarrow> (screen_x, screen_y)
                 | Some prev \<Rightarrow>
                     (py_int (smoothing_factor tr * real_of_int screen_x +
                              (1 - smoothing_factor tr) * real_of_int (fst prev)),
                      py_int (smoothing_factor tr * real_of_int screen_y +
                              (1 - smoothing_factor tr) * real_of_int (snd prev))));
              gd1 = gd\<lparr>screen_point := Some (screen_x, screen_y)\<rparr>
          in (gd1, tr\<lparr>prev_screen_point := screen_point gd1\<rparr>))"

text \<open>The part of \<open>process_frame\<close> after blink detection, for given blink flags.\<close>

definition process_landmarks ::
  "EyeGazeTracker \<Rightarrow> landmark list \<Rightarrow> int \<Rightarrow> int \<Rightarrow> bool \<Rightarrow> bool
     \<Rightarrow> (error + GazeData) \<times> EyeGazeTracker" where
  "process_landmarks tr landmarks frame_width frame_height left_blink right_blink =
     (case left_eye tr landmarks frame_width frame_height left_blink GazeData_init of
        (Inl e, tr1) \<Rightarrow> (Inl e, tr1)
      | (Inr gd1, tr1) \<Rightarrow>
          (case right_eye tr1 landmarks frame_width frame_height right_blink gd1 of
             (Inl e, tr2) \<Rightarrow> (Inl e, tr2)
           | (Inr gd2, tr2) \<Rightarrow>
               (case combine_gaze tr2 gd2 of
                  (Inl e, tr3) \<Rightarrow> (Inl e, tr3)
                | (Inr gd3, tr3) \<Rightarrow>
                    (let (gd4, tr4) = map_to_screen tr3 gd3 in (Inr gd4, tr4)))))"

text \<open>
  \<open>process_frame\<close>: \<open>face_landmarks\<close> is the detector's result for the frame, a list of
  faces; the first face is used. Without a face the frame's \<^verbatim>\<open>gaze_data\<close> is empty.
\<close>

definition process_frame ::
  "EyeGazeTracker \<Rightarrow> landmark list list \<Rightarrow> int \<Rightarrow> int \<Rightarrow> (error + GazeData) \<times> EyeGazeTracker" where
  "process_frame tr face_landmarks frame_width frame_height =
     (case face_landmarks of
        [] \<Rightarrow> (Inr GazeData_init, tr)
      | landmarks # _ \<Rightarrow>
          (case detect_blink landmarks frame_height of
             Inl e \<Rightarrow> (Inl e, tr)
           | Inr (left_blink, right_blink) \<Rightarrow>
               process_landmarks tr landmarks frame_width frame_height left_blink right_blink))"

definition reset_filters :: "EyeGazeTracker \<Rightarrow> EyeGazeTracker" where
  "reset_filters tr =
     tr\<lparr>left_kalman := KalmanFilter2D_reset (left_kalman tr),
        right_kalman := KalmanFilter2D_reset (right_kalman tr),
        combined_kalman := KalmanFilter2D_reset (combined_kalman tr),
        prev_screen_point := None\<rparr>"

section \<open>Calibration loops and their environment\<close>

text \<open>
  The calibration tools run a \<^verbatim>\<open>while True\<close> loop per target: read a frame, let the
  tracker process it, draw, read a key. The camera, the tracker's frame processing and the
  keyboard are the loop's environment; one iteration receives one of these events:
  \<^item> \<open>NoFrame\<close>: \<^verbatim>\<open>cap.read()\<close> gave no frame (\<^verbatim>\<open>continue\<close>);
  \<^item> \<open>Frame g key\<close>: a frame whose \<^verbatim>\<open>gaze_data.combined_gaze\<close> is \<open>g\<close>, followed by the
    key code \<^verbatim>\<open>cv2.waitKey(1) & 0xFF\<close>;
  \<^item> \<open>Raises e\<close>: the iteration raised \<open>e\<close> (camera, frame processing or display).
  A loop that has used up the events without returning has not returned: \<open>None\<close>.
\<close>

datatype frame_event = NoFrame | Frame "vec2 option" nat | Raises error

section \<open>CalibrationTool (calibration.py)\<close>

datatype CalibrationMode = AFFINE | POLYNOMIAL

record CalibrationTool =
  num_points :: int
  samples_per_point :: int
  ct_screen_width :: int
  ct_screen_height :: int
  mode :: CalibrationMode
  calibration_points :: "(int \<times> int) list"
  calibration_data :: "((int \<times> int) \<times> vec2 list) list"
  transform_matrix :: "mat option"
  transform_x :: "vec option"
  transform_y :: "vec option"

definition generate_points :: "int \<Rightarrow> int \<Rightarrow> int \<Rightarrow> (int \<times> int) list" where
  "generate_points n width height =
     (let margin_x = py_int (real_of_int width * 0.1);
          margin_y = py_int (real_of_int height * 0.1)
      in if n = 5 then
           [(margin_x, margin_y),
            (width - margin_x, margin_y),
            (width div 2, height div 2),
            (margin_x, height - margin_y),
            (width - margin_x, height - margin_y)]
         else
           concat (map (\<lambda>row. map (\<lambda>col.
               (margin_x + col * (width - 2 * margin_x) div 2,
                margin_y + row * (height - 2 * margin_y) div 2)) [0, 1, 2]) [0, 1, 2]))"

definition CalibrationTool_init :: "int \<Rightarrow> int \<Rightarrow> int \<Rightarrow> int \<Rightarrow> CalibrationMode \<Rightarrow> CalibrationTool" where
  "CalibrationTool_init n samples width height m =
     \<lparr> num_points = n, samples_per_point = samples,
       ct_screen_width = width, ct_screen_height = height, mode = m,
       calibration_points = generate_points n width height,
       calibration_data = [],
       transform_matrix = None, transform_x = None, transform_y = None \<rparr>"

text \<open>\<^verbatim>\<open>np.dot\<close> of two vectors raises \<^verbatim>\<open>ValueError\<close> when their lengths differ.\<close>

definition np_dot :: "vec \<Rightarrow> vec \<Rightarrow> error + real" where
  "np_dot u v = (if length u = length v then Inr (dot u v) else Inl ValueError)"

definition gaze_to_screen :: "CalibrationTool \<Rightarrow> vec2 \<Rightarrow> error + (int \<times> int)" where
  "gaze_to_screen ct gaze =
     (case (transform_matrix ct, transform_x ct, transform_y ct) of
        (Some tm, Some tx, Some ty) \<Rightarrow>
          (let gx = fst gaze; gy = snd gaze;
               gaze_features =
                 (if mode ct = POLYNOMIAL then [1, gx, gy, gx * gx, gy * gy, gx * gy]
                  else [1, gx, gy])
           in ebind (np_dot tx gaze_features) (\<lambda>dx.
              ebind (np_dot ty gaze_features) (\<lambda>dy.
                let x = py_int dx;
                    y = py_int dy;
                    x = max 0 (min (ct_screen_width ct - 1) x);
                    y = max 0 (min (ct_screen_height ct - 1) y)
                in Inr (x, y))))
      | _ \<Rightarrow>
          (let x = py_int ((fst gaze + 1) / 2 * real_of_int (ct_screen_width ct));
               y = py_int ((snd gaze + 1) / 2 * real_of_int (ct_screen_height ct))
           in Inr (x, y)))"

text \<open>\<^verbatim>\<open>np.mean(samples, axis=0)\<close> of a list of gaze vectors.\<close>

definition mean2 :: "vec2 list \<Rightarrow> vec2" where
  "mean2 samples = (mean (map fst samples), mean (map snd samples))"

text \<open>The calibration error of each point, as the loop after the fit computes it.\<close>

fun calibration_errors ::
  "CalibrationTool \<Rightarrow> ((int \<times> int) \<times> vec2 list) list \<Rightarrow> error + real list" where
  "calibration_errors ct [] = Inr []"
| "calibration_errors ct ((screen_pt, samples) # rest) =
     ebind (gaze_to_screen ct (mean2 samples)) (\<lambda>predicted.
       let err = sqrt ((real_of_int (fst predicted - fst screen_pt))\<^sup>2 +
                       (real_of_int (snd predicted - snd screen_pt))\<^sup>2)
       in ebind (calibration_errors ct rest) (\<lambda>errs. Inr (err # errs)))"

text \<open>
  \<open>compute_calibration\<close>: \<^verbatim>\<open>np.linalg.lstsq\<close> is numpy's and is a parameter; it gives the
  coefficient vector or raises. \<^verbatim>\<open>np.vstack\<close> raises \<^verbatim>\<open>ValueError\<close> on rows of different
  lengths. The method returns \<^verbatim>\<open>None\<close> on every path that returns.
\<close>

definition compute_calibration ::
  "(mat \<Rightarrow> vec \<Rightarrow> error + vec) \<Rightarrow> CalibrationTool \<Rightarrow> (error + unit) \<times> CalibrationTool" where
  "compute_calibration lstsq ct =
     (let min_points = (if mode ct = POLYNOMIAL then 6 else 4)
      in if length (calibration_data ct) < min_points then (Inr (), ct)
         else
           let gaze_points = map (\<lambda>(screen_pt, samples). mean2 samples) (calibration_data ct);
               screen_points = map (\<lambda>(screen_pt, samples). screen_pt) (calibration_data ct);
               A = (if mode ct = POLYNOMIAL
                    then map (\<lambda>(gx, gy). [1, gx, gy, gx\<^sup>2, gy\<^sup>2, gx * gy]) gaze_points
                    else map (\<lambda>(gx, gy). [1, gx, gy]) gaze_points)
           in case lstsq A (map (\<lambda>sp. real_of_int (fst sp)) screen_points) of
                Inl e \<Rightarrow> (Inl e, ct)
              | Inr tx \<Rightarrow>
                  (let ct1 = ct\<lparr>transform_x := Some tx\<rparr>
                   in case lstsq A (map (\<lambda>sp. real_of_int (snd sp)) screen_points) of
                        Inl e \<Rightarrow> (Inl e, ct1)
                      | Inr ty \<Rightarrow>
                          (let ct2 = ct1\<lparr>transform_y := Some ty\<rparr>
                           in if length tx \<noteq> length ty then (Inl ValueError, ct2)
                              else
                                let ct3 = ct2\<lparr>transform_matrix := Some [tx, ty]\<rparr>
                                in case calibration_errors ct3 (calibration_data ct3) of
                                     Inl e \<Rightarrow> (Inl e, ct3)
                                   | Inr errors \<Rightarrow> (Inr (), ct3))))"

text \<open>
  \<open>collect_point_data\<close>: the loop for one calibration point, with its local variables
  \<^verbatim>\<open>samples\<close> and \<^verbatim>\<open>collecting\<close>. ESC is key 27, SPACE is key 32.
\<close>

fun collect_point_data ::
  "CalibrationTool \<Rightarrow> int \<times> int \<Rightarrow> vec2 list \<Rightarrow> bool \<Rightarrow> frame_event list
     \<Rightarrow> ((error + bool) \<times> CalibrationTool \<times> frame_event list) option" where
  "collect_point_data ct point samples collecting [] = None"
| "collect_point_data ct point samples collecting (NoFrame # evs) =
     collect_point_data ct point samples collecting evs"
| "collect_point_data ct point samples collecting (Raises e # evs) = Some (Inl e, ct, evs)"
| "collect_point_data ct point samples collecting (Frame g key # evs) =
     (if key = 27 then Some (Inr False, ct, evs)
      else
        let collecting = (if key = 32 \<and> \<not> collecting then True else collecting)
        in case (collecting, g) of
             (True, Some v) \<Rightarrow>
               (let samples = samples @ [v]
                in if int (length samples) \<ge> samples_per_point ct then
                     Some (Inr True,
                           ct\<lparr>calibration_data := calibration_data ct @ [(point, samples)]\<rparr>,
                           evs)
                   else collect_point_data ct point samples collecting evs)
           | _ \<Rightarrow> collect_point_data ct point samples collecting evs)"

text \<open>The \<^verbatim>\<open>for\<close> loop of \<open>run_calibration\<close> over the calibration points.\<close>

fun collect_all_points ::
  "CalibrationTool \<Rightarrow> (int \<times> int) list \<Rightarrow> frame_event list
     \<Rightarrow> ((error + bool) \<times> CalibrationTool \<times> frame_event list) option" where
  "collect_all_points ct [] evs = Some (Inr True, ct, evs)"
| "collect_all_points ct (point # points) evs =
     (case collect_point_data ct point [] False evs of
        None \<Rightarrow> None
      | Some (Inl e, ct1, evs1) \<Rightarrow> Some (Inl e, ct1, evs1)
      | Some (Inr success, ct1, evs1) \<Rightarrow>
          (if \<not> success then Some (Inr False, ct1, evs1)
           else collect_all_points ct1 points evs1))"

text \<open>
  \<open>run_calibration\<close> returns its boolean and the tool afterwards. Every exception is
  caught (\<^verbatim>\<open>except Exception\<close>) and gives \<^verbatim>\<open>False\<close>.
\<close>

definition run_calibration ::
  "(mat \<Rightarrow> vec \<Rightarrow> error + vec) \<Rightarrow> CalibrationTool \<Rightarrow> frame_event list
     \<Rightarrow> (bool \<times> CalibrationTool) option" where
  "run_calibration lstsq ct evs =
     (let ct0 = ct\<lparr>calibration_data := []\<rparr>
      in case collect_all_points ct0 (calibration_points ct0) evs of
           None \<Rightarrow> None
         | Some (Inl e, ct1, evs1) \<Rightarrow> Some (False, ct1)
         | Some (Inr success, ct1, evs1) \<Rightarrow>
             (if \<not> success then Some (False, ct1)
              else case compute_calibration lstsq ct1 of
                     (Inl e, ct2) \<Rightarrow> Some (False, ct2)
                   | (Inr u, ct2) \<Rightarrow> Some (True, ct2)))"

section \<open>QuickCalibration (visual_assessment.py)\<close>

text \<open>The dictionary that \<open>collect_point\<close> returns has a fixed set of keys: a record.\<close>

record measurement =
  point_name :: string
  target_x :: int
  target_y :: int
  expected_x :: real
  expected_y :: real
  measured_x :: real
  measured_y :: real
  error_x :: real
  error_y :: real









section \<open>Example inputs\<close>

text \<open>
  An adaptive filter with the default parameters that has received measurements and whose
  velocity history holds the single magnitude \<open>v\<close>, so that its smoothed velocity is \<open>v\<close>.
\<close>

definition adaptive_at_velocity :: "real \<Rightarrow> AdaptiveKalmanFilter2D" where
  "adaptive_at_velocity v =
     (AdaptiveKalmanFilter2D_init (1 / 10000) (1 / 100) 0.02 0.15 3.0 0.3)
       \<lparr>initialized := True, velocity_history := [v]\<rparr>"

text \<open>
  An adaptive filter that has received measurements, at rest at the origin, whose velocity
  history is full.
\<close>

definition full_history_filter :: AdaptiveKalmanFilter2D where
  "full_history_filter =
     (AdaptiveKalmanFilter2D_init 1 1 0.02 0.15 3 0.3)
       \<lparr>initialized := True, velocity_history := [1, 2, 3, 4, 5]\<rparr>"

text \<open>
  A tracker with the default parameters, a few faces on a 100 by 100 frame (both eyes open and
  ten pixels wide, irises centred), and the same tracker after an earlier frame.
\<close>

definition example_tracker :: EyeGazeTracker where
  "example_tracker = EyeGazeTracker_init 1920 1080 (1 / 10000) (1 / 100) 0.3 2.5 3.0 0.0 0.3"

definition point :: "real \<Rightarrow> real \<Rightarrow> landmark" where
  "point a b = \<lparr> lm_x = Some a, lm_y = Some b \<rparr>"

definition example_face :: "landmark list" where
  "example_face = (replicate 478 (point 0 0))
     [33 := point 0.3 0.5, 133 := point 0.4 0.5, 468 := point 0.35 0.5,
      159 := point 0.35 0.45, 145 := point 0.35 0.55,
      362 := point 0.6 0.5, 263 := point 0.7 0.5, 473 := point 0.65 0.5,
      386 := point 0.65 0.45, 374 := point 0.65 0.55]"

definition right_eye_closed_face :: "landmark list" where
  "right_eye_closed_face = example_face[386 := point 0.65 0.5, 374 := point 0.65 0.5]"

definition right_eye_degenerate_face :: "landmark list" where
  "right_eye_degenerate_face = example_face[263 := point 0.6 0.5]"

definition eyelid_without_y_face :: "landmark list" where
  "eyelid_without_y_face = example_face[159 := \<lparr> lm_x = Some 0.35, lm_y = None \<rparr>]"

definition tracker_after_a_frame :: EyeGazeTracker where
  "tracker_after_a_frame = example_tracker\<lparr>prev_screen_point := Some (1000, 500)\<rparr>"



text \<open>
  A tool for five calibration points in the default polynomial mode, one sample per point,
  and a session in which the user fixates and confirms each of the five points.
\<close>

definition five_point_tool :: CalibrationTool where
  "five_point_tool = CalibrationTool_init 5 1 1920 1080 POLYNOMIAL"

definition five_fixations :: "frame_event list" where
  "five_fixations =
     [Frame (Some (0, 0)) 32, Frame (Some (0, 0)) 32, Frame (Some (0, 0)) 32,
      Frame (Some (0, 0)) 32, Frame (Some (0, 0)) 32]"







section \<open>Evaluating the matrix operations\<close>

lemmas linalg_defs = F_def H_def mat_vec_def mat_mul_def mat_T_def mat_add_def mat_sub_def
  vec_add_def vec_sub_def dot_def eye_def mat_scale_def position_def zeros_def

lemma upt_numerals: "[0..<4] = [0, 1, 2, 3]" "[0..<2] = [0, 1]"
  by (simp_all add: upt_rec)

section \<open>Properties of the filters\<close>


lemma smoothstep_poly: "t * t * (3 - 2 * t) = 3 * t\<^sup>2 - 2 * t ^ 3" for t :: real
  by (simp add: power2_eq_square power3_eq_cube algebra_simps)

text \<open>
  C4. The measurement-noise schedule. With \<open>v\<close> the smoothed velocity and thresholds
  \<open>lo < hi\<close>, the measurement noise that \<open>get_adaptive_measurement_noise\<close> stores is the base
  noise times the dwell multiplier when \<open>v \<le> lo\<close>, times the rapid multiplier when
  \<open>v \<ge> hi\<close>, and in between times the smoothstep blend
  \<open>dwell + (3 t\<^sup>2 - 2 t\<^sup>3) (rapid - dwell)\<close> with \<open>t = (v - lo) / (hi - lo)\<close>; the matrix
  returned is that noise on the diagonal.
\<close>

theorem measurement_noise_schedule:
  fixes kf :: AdaptiveKalmanFilter2D
  defines "v \<equiv> get_smoothed_velocity kf"
    and "lo \<equiv> low_velocity_threshold kf"
    and "hi \<equiv> high_velocity_threshold kf"
    and "dwell \<equiv> dwell_measurement_multiplier kf"
    and "rapid \<equiv> rapid_measurement_multiplier kf"
    and "noise \<equiv> current_measurement_noise (snd (get_adaptive_measurement_noise kf))"
  assumes "lo < hi"
  shows "(v \<le> lo \<longrightarrow> noise = base_measurement_noise kf * dwell)
       \<and> (v \<ge> hi \<longrightarrow> noise = base_measurement_noise kf * rapid)
       \<and> (lo < v \<and> v < hi \<longrightarrow>
            noise = base_measurement_noise kf *
              (dwell + (3 * ((v - lo) / (hi - lo))\<^sup>2 - 2 * ((v - lo) / (hi - lo)) ^ 3)
                         * (rapid - dwell)))
       \<and> fst (get_adaptive_measurement_noise kf) = mat_scale (eye 2) noise"
proof -
  have dwelling: "v \<le> lo \<Longrightarrow> noise = base_measurement_noise kf * dwell"
    unfolding assms(1-6) by (simp add: get_adaptive_measurement_noise_def Let_def)
  have saccade: "v \<ge> hi \<Longrightarrow> noise = base_measurement_noise kf * rapid"
    using \<open>lo < hi\<close> unfolding assms(1-6)
    by (simp add: get_adaptive_measurement_noise_def Let_def)
  have between: "lo < v \<Longrightarrow> v < hi \<Longrightarrow> noise = base_measurement_noise kf *
      (dwell + (3 * ((v - lo) / (hi - lo))\<^sup>2 - 2 * ((v - lo) / (hi - lo)) ^ 3) * (rapid - dwell))"
    unfolding assms(1-6)
    by (simp add: get_adaptive_measurement_noise_def Let_def smoothstep_poly)
  have matrix: "fst (get_adaptive_measurement_noise kf) = mat_scale (eye 2) noise"
    unfolding assms(1-6) by (simp add: get_adaptive_measurement_noise_def Let_def)
  from dwelling saccade between matrix show ?thesis by blast
qed

text \<open>
  The default parameters (dwell 3.0, rapid 0.3, low 0.02, high 0.15, base noise 0.01):
  velocity 0.01 gives 3.0 times the base, velocity 0.20 gives 0.3 times the base, and the
  midpoint 0.085 gives the blend at \<open>t = 0.5\<close>.
\<close>

theorem measurement_noise_schedule_witness:
  "current_measurement_noise (snd (get_adaptive_measurement_noise (adaptive_at_velocity 0.01)))
     = (1 / 100) * 3.0
   \<and> current_measurement_noise (snd (get_adaptive_measurement_noise (adaptive_at_velocity 0.20)))
     = (1 / 100) * 0.3
   \<and> current_measurement_noise (snd (get_adaptive_measurement_noise (adaptive_at_velocity 0.085)))
     = (1 / 100) * (3.0 + 0.5\<^sup>2 * (3 - 2 * 0.5) * (0.3 - 3.0))"
  using measurement_noise_schedule [of "adaptive_at_velocity 0.01"]
        measurement_noise_schedule [of "adaptive_at_velocity 0.20"]
        measurement_noise_schedule [of "adaptive_at_velocity 0.085"]
  by (simp add: adaptive_at_velocity_def AdaptiveKalmanFilter2D_init_def
      get_smoothed_velocity_def mean_def power2_eq_square power3_eq_cube)

lemma history_after_append:
  assumes "velocity_history_size kf = 5" and "length (velocity_history kf) \<le> 5"
  shows "velocity_history (update_velocity_history kf) =
           drop (length (velocity_history kf) + 1 - 5) (velocity_history kf @ [get_velocity kf])"
    and "velocity_history_size (update_velocity_history kf) = 5"
    and "get_velocity (update_velocity_history kf) = get_velocity kf"
  using assms
  by (cases "velocity_history kf";
      auto simp add: update_velocity_history_def Let_def drop_Cons' get_velocity_def)+

lemma predict_history:
  "velocity_history (snd (AdaptiveKalmanFilter2D_predict kf)) = velocity_history kf"
  "velocity_history_size (snd (AdaptiveKalmanFilter2D_predict kf)) = velocity_history_size kf"
  by (simp_all add: AdaptiveKalmanFilter2D_predict_def get_adaptive_process_noise_def
      Let_def split_def)

lemma noise_history:
  "velocity_history (snd (get_adaptive_measurement_noise kf)) = velocity_history kf"
  "velocity_history_size (snd (get_adaptive_measurement_noise kf)) = velocity_history_size kf"
  by (simp_all add: get_adaptive_measurement_noise_def Let_def)

lemma update_raises_history:
  assumes "AdaptiveKalmanFilter2D_update kf m = (Inl e, kf')"
  shows "velocity_history kf' = velocity_history kf"
    and "velocity_history_size kf' = velocity_history_size kf"
  using assms
  by (auto simp add: AdaptiveKalmanFilter2D_update_def Let_def split_def predict_history
      noise_history split: if_splits sum.splits)

lemma update_first_history:
  assumes "\<not> initialized kf" and "AdaptiveKalmanFilter2D_update kf m = (r, kf')"
  shows "velocity_history kf' = velocity_history kf"
    and "velocity_history_size kf' = velocity_history_size kf"
  using assms by (auto simp add: AdaptiveKalmanFilter2D_update_def)

lemma update_returns_history:
  assumes "initialized kf" and "AdaptiveKalmanFilter2D_update kf m = (Inr out, kf')"
    and "velocity_history_size kf = 5" and "length (velocity_history kf) \<le> 5"
  shows "velocity_history kf' =
           drop (length (velocity_history kf) + 1 - 5) (velocity_history kf @ [get_velocity kf'])"
    and "velocity_history_size kf' = 5"
proof -
  obtain r kf2 where
    n: "get_adaptive_measurement_noise (snd (AdaptiveKalmanFilter2D_predict kf)) = (r, kf2)"
    by (cases "get_adaptive_measurement_noise (snd (AdaptiveKalmanFilter2D_predict kf))")
  have h2: "velocity_history kf2 = velocity_history kf" "velocity_history_size kf2 = 5"
    using noise_history [of "snd (AdaptiveKalmanFilter2D_predict kf)"] predict_history [of kf]
      n assms(3)
    by simp_all
  define kf3 where "kf3 = kf2\<lparr>R := r\<rparr>"
  obtain S_inv where
    inv: "linalg_inv (mat_add (mat_mul (mat_mul H (P kf3)) (mat_T H)) (R kf3)) = Inr S_inv"
    using assms(1,2) n
    by (auto simp add: AdaptiveKalmanFilter2D_update_def Let_def kf3_def split: sum.splits)
  define kf5 where "kf5 = kf3\<lparr>state := vec_add (state kf3)
        (mat_vec (mat_mul (mat_mul (P kf3) (mat_T H)) S_inv)
           (vec_sub [fst m, snd m] (mat_vec H (state kf3)))),
      P := mat_mul (mat_sub (eye 4) (mat_mul (mat_mul (mat_mul (P kf3) (mat_T H)) S_inv) H))
             (P kf3)\<rparr>"
  have kf': "kf' = update_velocity_history kf5"
    using assms(1,2) n inv
    by (simp add: AdaptiveKalmanFilter2D_update_def Let_def kf3_def kf5_def)
  have h5: "velocity_history kf5 = velocity_history kf" "velocity_history_size kf5 = 5"
    using h2 by (simp_all add: kf5_def kf3_def)
  then have len5: "length (velocity_history kf5) \<le> 5"
    using assms(4) by simp
  show "velocity_history kf' =
          drop (length (velocity_history kf) + 1 - 5) (velocity_history kf @ [get_velocity kf'])"
    using history_after_append(1,3) [OF h5(2) len5] h5 kf' by simp
  show "velocity_history_size kf' = 5"
    using history_after_append(2) [OF h5(2) len5] kf' by simp
qed

text \<open>
  C9. The velocity history of the adaptive filter never holds more than five entries.
  For a filter with history size 5 and at most five entries: every \<^verbatim>\<open>update\<close>, whatever
  its outcome, leaves at most five entries; an \<^verbatim>\<open>update\<close> after initialization that
  returns has appended the new state's velocity magnitude and, when that made six, dropped
  the oldest; \<^verbatim>\<open>predict\<close> leaves the history alone, \<^verbatim>\<open>reset\<close> empties it and the constructor
  starts with an empty one.
  The smoothed velocity is the mean of the history, or the state's velocity magnitude when
  the history is empty.
\<close>

theorem velocity_history_at_most_five:
  assumes size5: "velocity_history_size kf = 5"
    and bounded: "length (velocity_history kf) \<le> 5"
  shows "length (velocity_history (snd (AdaptiveKalmanFilter2D_update kf m))) \<le> 5
       \<and> velocity_history_size (snd (AdaptiveKalmanFilter2D_update kf m)) = 5
       \<and> (initialized kf \<longrightarrow>
            (\<forall>out kf'. AdaptiveKalmanFilter2D_update kf m = (Inr out, kf') \<longrightarrow>
               velocity_history kf' =
                 drop (length (velocity_history kf) + 1 - 5)
                      (velocity_history kf @ [get_velocity kf'])))
       \<and> velocity_history (snd (AdaptiveKalmanFilter2D_predict kf)) = velocity_history kf
       \<and> velocity_history (AdaptiveKalmanFilter2D_reset kf) = []
       \<and> velocity_history_size (AdaptiveKalmanFilter2D_reset kf) = 5
       \<and> velocity_history (AdaptiveKalmanFilter2D_init q r lo hi dw rp) = []
       \<and> velocity_history_size (AdaptiveKalmanFilter2D_init q r lo hi dw rp) = 5
       \<and> get_smoothed_velocity kf =
           (if velocity_history kf = [] then get_velocity kf
            else sum_list (velocity_history kf) / real (length (velocity_history kf)))"
proof -
  obtain res kf' where u: "AdaptiveKalmanFilter2D_update kf m = (res, kf')"
    by (cases "AdaptiveKalmanFilter2D_update kf m")
  have after: "length (velocity_history kf') \<le> 5 \<and> velocity_history_size kf' = 5"
  proof (cases "initialized kf")
    case False
    then show ?thesis using update_first_history [OF False u] size5 bounded by simp
  next
    case True
    show ?thesis
    proof (cases res)
      case (Inl e)
      then show ?thesis using update_raises_history [of kf m e kf'] u size5 bounded by simp
    next
      case (Inr out)
      then show ?thesis
        using update_returns_history [OF True _ size5 bounded, of m out kf'] u bounded by simp
    qed
  qed
  have appended: "initialized kf \<longrightarrow>
      (\<forall>out kf'. AdaptiveKalmanFilter2D_update kf m = (Inr out, kf') \<longrightarrow>
         velocity_history kf' =
           drop (length (velocity_history kf) + 1 - 5) (velocity_history kf @ [get_velocity kf']))"
    using update_returns_history(1) [OF _ _ size5 bounded] by blast
  have reset: "velocity_history (AdaptiveKalmanFilter2D_reset kf) = []
       \<and> velocity_history_size (AdaptiveKalmanFilter2D_reset kf) = 5"
    using size5 by (simp add: AdaptiveKalmanFilter2D_reset_def)
  have init: "velocity_history (AdaptiveKalmanFilter2D_init q r lo hi dw rp) = []
       \<and> velocity_history_size (AdaptiveKalmanFilter2D_init q r lo hi dw rp) = 5"
    by (simp add: AdaptiveKalmanFilter2D_init_def)
  have smoothed: "get_smoothed_velocity kf =
           (if velocity_history kf = [] then get_velocity kf
            else sum_list (velocity_history kf) / real (length (velocity_history kf)))"
    by (simp add: get_smoothed_velocity_def mean_def)
  from after appended predict_history(1) [of kf] reset init smoothed show ?thesis
    unfolding u by simp
qed

text \<open>
  A full history \<open>[1, 2, 3, 4, 5]\<close>: an update at rest appends the magnitude 0 and drops
  the oldest entry.
\<close>

lemma full_history_update:
  "fst (AdaptiveKalmanFilter2D_update full_history_filter (0, 0)) = Inr (0, 0)
   \<and> velocity_history (snd (AdaptiveKalmanFilter2D_update full_history_filter (0, 0))) =
       [2, 3, 4, 5, 0]"
  by (simp add: AdaptiveKalmanFilter2D_update_def AdaptiveKalmanFilter2D_predict_def
      full_history_filter_def AdaptiveKalmanFilter2D_init_def get_adaptive_process_noise_def
      get_adaptive_measurement_noise_def get_smoothed_velocity_def mean_def clip_def
      update_velocity_history_def get_velocity_def Let_def linalg_defs upt_numerals
      numeral_eq_Suc)

theorem velocity_history_at_most_five_witness:
  "velocity_history_size full_history_filter = 5
   \<and> length (velocity_history full_history_filter) = 5
   \<and> initialized full_history_filter
   \<and> fst (AdaptiveKalmanFilter2D_update full_history_filter (0, 0)) = Inr (0, 0)
   \<and> velocity_history (snd (AdaptiveKalmanFilter2D_update full_history_filter (0, 0))) =
       [2, 3, 4, 5, 0]
   \<and> length (velocity_history (snd (AdaptiveKalmanFilter2D_update full_history_filter (0, 0)))) \<le> 5
   \<and> get_smoothed_velocity full_history_filter = 3"
proof -
  have size5: "velocity_history_size full_history_filter = 5"
    and len: "length (velocity_history full_history_filter) = 5"
    and ini: "initialized full_history_filter"
    by (simp_all add: full_history_filter_def AdaptiveKalmanFilter2D_init_def)
  from len have bounded: "length (velocity_history full_history_filter) \<le> 5" by simp
  note th = velocity_history_at_most_five [OF size5 bounded, of "(0, 0)"]
  have sm: "get_smoothed_velocity full_history_filter = 3"
    using th by (simp add: full_history_filter_def AdaptiveKalmanFilter2D_init_def)
  from th full_history_update size5 len ini sm show ?thesis by simp
qed

section \<open>Properties of frame processing\<close>

text \<open>What each block of \<open>process_frame\<close> leaves unchanged.\<close>

lemma left_eye_frame:
  assumes "left_eye tr landmarks fw fh b gd = (r, tr1)"
  shows "right_kalman tr1 = right_kalman tr" "combined_kalman tr1 = combined_kalman tr"
    "prev_screen_point tr1 = prev_screen_point tr"
    "screen_width tr1 = screen_width tr" "screen_height tr1 = screen_height tr"
    "smoothing_factor tr1 = smoothing_factor tr"
    "sensitivity_x tr1 = sensitivity_x tr" "sensitivity_y tr1 = sensitivity_y tr"
    "offset_x tr1 = offset_x tr" "offset_y tr1 = offset_y tr"
  using assms
  by (auto simp add: left_eye_def split: if_splits sum.splits option.splits prod.splits)

lemma left_eye_data:
  assumes "left_eye tr landmarks fw fh b gd = (Inr gd1, tr1)"
  shows "right_gaze gd1 = right_gaze gd" "combined_gaze gd1 = combined_gaze gd"
    "screen_point gd1 = screen_point gd" "confidence gd1 = confidence gd"
  using assms
  by (auto simp add: left_eye_def split: if_splits sum.splits option.splits prod.splits)

lemma right_eye_frame:
  assumes "right_eye tr landmarks fw fh b gd = (r, tr1)"
  shows "left_kalman tr1 = left_kalman tr" "combined_kalman tr1 = combined_kalman tr"
    "prev_screen_point tr1 = prev_screen_point tr"
    "screen_width tr1 = screen_width tr" "screen_height tr1 = screen_height tr"
    "smoothing_factor tr1 = smoothing_factor tr"
    "sensitivity_x tr1 = sensitivity_x tr" "sensitivity_y tr1 = sensitivity_y tr"
    "offset_x tr1 = offset_x tr" "offset_y tr1 = offset_y tr"
  using assms
  by (auto simp add: right_eye_def split: if_splits sum.splits option.splits prod.splits)

lemma right_eye_data:
  assumes "right_eye tr landmarks fw fh b gd = (Inr gd1, tr1)"
  shows "left_gaze gd1 = left_gaze gd" "combined_gaze gd1 = combined_gaze gd"
    "screen_point gd1 = screen_point gd" "confidence gd1 = confidence gd"
  using assms
  by (auto simp add: right_eye_def split: if_splits sum.splits option.splits prod.splits)

lemma combine_gaze_frame:
  assumes "combine_gaze tr gd = (r, tr1)"
  shows "left_kalman tr1 = left_kalman tr" "right_kalman tr1 = right_kalman tr"
    "prev_screen_point tr1 = prev_screen_point tr"
    "screen_width tr1 = screen_width tr" "screen_height tr1 = screen_height tr"
    "smoothing_factor tr1 = smoothing_factor tr"
    "offset_x tr1 = offset_x tr" "offset_y tr1 = offset_y tr"
  using assms
  by (auto simp add: combine_gaze_def Let_def split: if_splits sum.splits option.splits prod.splits)

lemma combine_gaze_data:
  assumes "combine_gaze tr gd = (Inr gd1, tr1)"
  shows "left_gaze gd1 = left_gaze gd" "right_gaze gd1 = right_gaze gd"
    "screen_point gd1 = screen_point gd"
  using assms
  by (auto simp add: combine_gaze_def Let_def split: if_splits sum.splits option.splits prod.splits)

lemma map_to_screen_frame:
  assumes "map_to_screen tr gd = (gd1, tr1)"
  shows "left_kalman tr1 = left_kalman tr" "right_kalman tr1 = right_kalman tr"
    "combined_kalman tr1 = combined_kalman tr"
    "offset_x tr1 = offset_x tr" "offset_y tr1 = offset_y tr"
    "left_gaze gd1 = left_gaze gd" "right_gaze gd1 = right_gaze gd"
    "combined_gaze gd1 = combined_gaze gd" "confidence gd1 = confidence gd"
  using assms
  by (auto simp add: map_to_screen_def Let_def split: option.splits prod.splits)

text \<open>The blocks that a returning frame went through.\<close>

lemma process_landmarks_stages:
  assumes "process_landmarks tr landmarks fw fh lb rb = (Inr gd, tr')"
  obtains gd1 tr1 gd2 tr2 gd3 tr3 where
    "left_eye tr landmarks fw fh lb GazeData_init = (Inr gd1, tr1)"
    "right_eye tr1 landmarks fw fh rb gd1 = (Inr gd2, tr2)"
    "combine_gaze tr2 gd2 = (Inr gd3, tr3)"
    "map_to_screen tr3 gd3 = (gd, tr')"
  using assms
  by (auto simp add: process_landmarks_def split: sum.splits prod.splits)

lemma combine_gaze_cases:
  assumes "combine_gaze tr gd = (Inr gd1, tr1)"
  shows "(\<forall>l r. left_gaze gd = Some l \<and> right_gaze gd = Some r \<longrightarrow>
            (\<exists>c. combined_gaze gd1 = Some c \<and>
                 KalmanFilter2D_update (combined_kalman tr) ((fst l + fst r) / 2, (snd l + snd r) / 2)
                   = (Inr c, combined_kalman tr1)) \<and> confidence gd1 = 1)"
    and "(\<forall>l. left_gaze gd = Some l \<and> right_gaze gd = None \<longrightarrow>
            combined_gaze gd1 = Some l \<and> combined_kalman tr1 = combined_kalman tr \<and> confidence gd1 = 0.7)"
    and "(\<forall>r. left_gaze gd = None \<and> right_gaze gd = Some r \<longrightarrow>
            combined_gaze gd1 = Some r \<and> combined_kalman tr1 = combined_kalman tr \<and> confidence gd1 = 0.7)"
    and "(left_gaze gd = None \<and> right_gaze gd = None \<longrightarrow> gd1 = gd \<and> tr1 = tr)"
  using assms
  by (auto simp add: combine_gaze_def Let_def split: sum.splits prod.splits option.splits)

lemma process_frame_cases:
  assumes "process_frame tr faces fw fh = (Inr gd, tr')"
  shows "(faces = [] \<and> gd = GazeData_init \<and> tr' = tr)
       \<or> (\<exists>landmarks others lb rb. faces = landmarks # others \<and>
             process_landmarks tr landmarks fw fh lb rb = (Inr gd, tr'))"
  using assms
  by (auto simp add: process_frame_def split: list.splits sum.splits prod.splits)

lemma process_landmarks_combined:
  assumes "process_landmarks tr landmarks fw fh lb rb = (Inr gd, tr')"
  shows "(\<forall>l r. left_gaze gd = Some l \<and> right_gaze gd = Some r \<longrightarrow>
            (\<exists>c. combined_gaze gd = Some c \<and>
                 KalmanFilter2D_update (combined_kalman tr) ((fst l + fst r) / 2, (snd l + snd r) / 2)
                   = (Inr c, combined_kalman tr')) \<and> confidence gd = 1)
       \<and> (\<forall>l. left_gaze gd = Some l \<and> right_gaze gd = None \<longrightarrow>
            combined_gaze gd = Some l \<and> combined_kalman tr' = combined_kalman tr \<and> confidence gd = 0.7)
       \<and> (\<forall>r. left_gaze gd = None \<and> right_gaze gd = Some r \<longrightarrow>
            combined_gaze gd = Some r \<and> combined_kalman tr' = combined_kalman tr \<and> confidence gd = 0.7)
       \<and> (left_gaze gd = None \<and> right_gaze gd = None \<longrightarrow>
            combined_gaze gd = None \<and> screen_point gd = None \<and> confidence gd = 0 \<and>
            combined_kalman tr' = combined_kalman tr \<and> prev_screen_point tr' = prev_screen_point tr)"
proof -
  from assms obtain gd1 tr1 gd2 tr2 gd3 tr3 where
    l: "left_eye tr landmarks fw fh lb GazeData_init = (Inr gd1, tr1)" and
    r: "right_eye tr1 landmarks fw fh rb gd1 = (Inr gd2, tr2)" and
    c: "combine_gaze tr2 gd2 = (Inr gd3, tr3)" and
    m: "map_to_screen tr3 gd3 = (gd, tr')"
    by (rule process_landmarks_stages)
  have ck: "combined_kalman tr2 = combined_kalman tr"
    using left_eye_frame(2) [OF l] right_eye_frame(2) [OF r] by simp
  have pp: "prev_screen_point tr3 = prev_screen_point tr"
    using left_eye_frame(3) [OF l] right_eye_frame(3) [OF r] combine_gaze_frame(3) [OF c] by simp
  have init: "combined_gaze gd2 = None" "screen_point gd2 = None" "confidence gd2 = 0"
    using left_eye_data [OF l] right_eye_data [OF r] by (simp_all add: GazeData_init_def)
  have eyes: "left_gaze gd = left_gaze gd2" "right_gaze gd = right_gaze gd2"
    using combine_gaze_data [OF c] map_to_screen_frame [OF m] by simp_all
  have after: "combined_gaze gd = combined_gaze gd3" "confidence gd = confidence gd3"
    "combined_kalman tr' = combined_kalman tr3"
    using map_to_screen_frame [OF m] by simp_all
  have none: "left_gaze gd = None \<and> right_gaze gd = None \<longrightarrow> gd = gd2 \<and> tr' = tr2"
    using combine_gaze_cases(4) [OF c] m eyes init by (auto simp add: map_to_screen_def)
  have both: "\<forall>l r. left_gaze gd = Some l \<and> right_gaze gd = Some r \<longrightarrow>
            (\<exists>c. combined_gaze gd = Some c \<and>
                 KalmanFilter2D_update (combined_kalman tr) ((fst l + fst r) / 2, (snd l + snd r) / 2)
                   = (Inr c, combined_kalman tr')) \<and> confidence gd = 1"
    using combine_gaze_cases(1) [OF c] unfolding ck eyes after by blast
  have left: "\<forall>l. left_gaze gd = Some l \<and> right_gaze gd = None \<longrightarrow>
            combined_gaze gd = Some l \<and> combined_kalman tr' = combined_kalman tr \<and> confidence gd = 0.7"
    using combine_gaze_cases(2) [OF c] unfolding ck eyes after by blast
  have right: "\<forall>r. left_gaze gd = None \<and> right_gaze gd = Some r \<longrightarrow>
            combined_gaze gd = Some r \<and> combined_kalman tr' = combined_kalman tr \<and> confidence gd = 0.7"
    using combine_gaze_cases(3) [OF c] unfolding ck eyes after by blast
  have neither: "left_gaze gd = None \<and> right_gaze gd = None \<longrightarrow>
            combined_gaze gd = None \<and> screen_point gd = None \<and> confidence gd = 0 \<and>
            combined_kalman tr' = combined_kalman tr \<and> prev_screen_point tr' = prev_screen_point tr"
  proof
    assume "left_gaze gd = None \<and> right_gaze gd = None"
    with none have e: "gd = gd2" "tr' = tr2" by simp_all
    show "combined_gaze gd = None \<and> screen_point gd = None \<and> confidence gd = 0 \<and>
            combined_kalman tr' = combined_kalman tr \<and> prev_screen_point tr' = prev_screen_point tr"
      using init ck left_eye_frame(3) [OF l] right_eye_frame(3) [OF r] unfolding e by simp
  qed
  from both left right neither show ?thesis by (intro conjI)
qed

lemma degenerate_eye:
  assumes "outer_idx < length landmarks" and "inner_idx < length landmarks"
    and "lm_x (landmarks ! outer_idx) = Some ox" and "lm_y (landmarks ! outer_idx) = Some oy"
    and "lm_x (landmarks ! inner_idx) = Some ix" and "lm_y (landmarks ! inner_idx) = Some iy"
    and "sqrt ((ix * real_of_int fw - ox * real_of_int fw)\<^sup>2 +
               (iy * real_of_int fh - oy * real_of_int fh)\<^sup>2) < 1"
  shows "get_iris_position tr landmarks outer_idx inner_idx iris_idx fw fh = Inr (None, None)"
  using assms
  by (simp add: get_iris_position_def get_iris_position_try_def ebind_def getitem_def attr_def
      Let_def)

lemma left_eye_no_gaze:
  assumes "get_iris_position tr landmarks LEFT_EYE_OUTER LEFT_EYE_INNER LEFT_IRIS_CENTER fw fh
             = Inr (None, None)"
  shows "left_eye tr landmarks fw fh lb gd = (Inr gd, tr)"
  using assms by (simp add: left_eye_def)

lemma right_eye_no_gaze:
  assumes "get_iris_position tr landmarks RIGHT_EYE_OUTER RIGHT_EYE_INNER RIGHT_IRIS_CENTER fw fh
             = Inr (None, None)"
  shows "right_eye tr landmarks fw fh rb gd = (Inr gd, tr)"
  using assms by (simp add: right_eye_def)

lemma process_landmarks_left_unchanged:
  assumes "left_eye tr landmarks fw fh lb GazeData_init = (Inr GazeData_init, tr)"
  shows "left_kalman (snd (process_landmarks tr landmarks fw fh lb rb)) = left_kalman tr"
    and "fst (process_landmarks tr landmarks fw fh lb rb) = Inr gd \<Longrightarrow> left_gaze gd = None"
proof -
  obtain r2 tr2 where r: "right_eye tr landmarks fw fh rb GazeData_init = (r2, tr2)"
    by (cases "right_eye tr landmarks fw fh rb GazeData_init")
  have k2: "left_kalman tr2 = left_kalman tr" using right_eye_frame(1) [OF r] .
  show "left_kalman (snd (process_landmarks tr landmarks fw fh lb rb)) = left_kalman tr"
  proof (cases r2)
    case (Inl e)
    then show ?thesis using assms r k2 by (simp add: process_landmarks_def)
  next
    case (Inr gd2)
    obtain r3 tr3 where c: "combine_gaze tr2 gd2 = (r3, tr3)" by (cases "combine_gaze tr2 gd2")
    have k3: "left_kalman tr3 = left_kalman tr" using combine_gaze_frame(1) [OF c] k2 by simp
    show ?thesis
    proof (cases r3)
      case (Inl e)
      then show ?thesis using assms r Inr c k3 by (simp add: process_landmarks_def)
    next
      case (Inr gd3)
      obtain gd4 tr4 where m: "map_to_screen tr3 gd3 = (gd4, tr4)"
        by (cases "map_to_screen tr3 gd3")
      have "left_kalman tr4 = left_kalman tr" using map_to_screen_frame(1) [OF m] k3 by simp
      then show ?thesis using assms r \<open>r2 = Inr gd2\<close> c Inr m by (simp add: process_landmarks_def)
    qed
  qed
  show "left_gaze gd = None" if "fst (process_landmarks tr landmarks fw fh lb rb) = Inr gd"
  proof -
    from that have "process_landmarks tr landmarks fw fh lb rb =
        (Inr gd, snd (process_landmarks tr landmarks fw fh lb rb))"
      by (metis prod.collapse)
    then obtain gd1 tr1 gd2 tr2 gd3 tr3 where
      l: "left_eye tr landmarks fw fh lb GazeData_init = (Inr gd1, tr1)" and
      r: "right_eye tr1 landmarks fw fh rb gd1 = (Inr gd2, tr2)" and
      c: "combine_gaze tr2 gd2 = (Inr gd3, tr3)" and
      m: "map_to_screen tr3 gd3 = (gd, snd (process_landmarks tr landmarks fw fh lb rb))"
      by (rule process_landmarks_stages)
    from l assms have "gd1 = GazeData_init" by simp
    then show ?thesis
      using right_eye_data(1) [OF r] combine_gaze_data(1) [OF c] map_to_screen_frame(6) [OF m]
      by (simp add: GazeData_init_def)
  qed
qed

lemmas index_defs = LEFT_EYE_OUTER_def LEFT_EYE_INNER_def LEFT_IRIS_CENTER_def
  RIGHT_EYE_OUTER_def RIGHT_EYE_INNER_def RIGHT_IRIS_CENTER_def LEFT_EYE_TOP_def
  LEFT_EYE_BOTTOM_def RIGHT_EYE_TOP_def RIGHT_EYE_BOTTOM_def

lemmas face_defs = example_face_def right_eye_closed_face_def right_eye_degenerate_face_def
  eyelid_without_y_face_def point_def

lemmas lookup_defs = ebind_def getitem_def attr_def

lemma sqrt_100: "sqrt 100 = 10"
  by (rule real_sqrt_unique) simp_all

lemma detect_blink_try_errors:
  assumes "detect_blink_try landmarks fh = Inl e"
  shows "e = IndexError \<or> e = AttributeError"
  using assms
  by (auto simp add: detect_blink_try_def lookup_defs Let_def split: if_splits option.splits)

lemma detect_blink_returns: "\<exists>lb rb. detect_blink landmarks fh = Inr (lb, rb)"
proof (cases "detect_blink_try landmarks fh")
  case (Inl e)
  with detect_blink_try_errors [OF Inl] show ?thesis
    by (auto simp add: detect_blink_def)
next
  case (Inr r)
  then show ?thesis by (cases r) (simp add: detect_blink_def)
qed

lemma process_landmarks_right_unchanged:
  assumes "\<And>t g. right_eye t landmarks fw fh rb g = (Inr g, t)"
  shows "right_kalman (snd (process_landmarks tr landmarks fw fh lb rb)) = right_kalman tr"
    and "fst (process_landmarks tr landmarks fw fh lb rb) = Inr gd \<Longrightarrow> right_gaze gd = None"
proof -
  obtain r1 tr1 where l: "left_eye tr landmarks fw fh lb GazeData_init = (r1, tr1)"
    by (cases "left_eye tr landmarks fw fh lb GazeData_init")
  have k1: "right_kalman tr1 = right_kalman tr" using left_eye_frame(1) [OF l] .
  show "right_kalman (snd (process_landmarks tr landmarks fw fh lb rb)) = right_kalman tr"
  proof (cases r1)
    case (Inl e)
    then show ?thesis using l k1 by (simp add: process_landmarks_def)
  next
    case (Inr gd1)
    obtain r3 tr3 where c: "combine_gaze tr1 gd1 = (r3, tr3)" by (cases "combine_gaze tr1 gd1")
    have k3: "right_kalman tr3 = right_kalman tr" using combine_gaze_frame(2) [OF c] k1 by simp
    show ?thesis
    proof (cases r3)
      case (Inl e)
      then show ?thesis using assms l Inr c k3 by (simp add: process_landmarks_def)
    next
      case (Inr gd3)
      obtain gd4 tr4 where m: "map_to_screen tr3 gd3 = (gd4, tr4)"
        by (cases "map_to_screen tr3 gd3")
      have "right_kalman tr4 = right_kalman tr" using map_to_screen_frame(2) [OF m] k3 by simp
      then show ?thesis
        using assms l \<open>r1 = Inr gd1\<close> c Inr m by (simp add: process_landmarks_def)
    qed
  qed
  show "right_gaze gd = None" if "fst (process_landmarks tr landmarks fw fh lb rb) = Inr gd"
  proof -
    from that have "process_landmarks tr landmarks fw fh lb rb =
        (Inr gd, snd (process_landmarks tr landmarks fw fh lb rb))"
      by (metis prod.collapse)
    then obtain gd1 tr1 gd2 tr2 gd3 tr3 where
      l: "left_eye tr landmarks fw fh lb GazeData_init = (Inr gd1, tr1)" and
      r: "right_eye tr1 landmarks fw fh rb gd1 = (Inr gd2, tr2)" and
      c: "combine_gaze tr2 gd2 = (Inr gd3, tr3)" and
      m: "map_to_screen tr3 gd3 = (gd, snd (process_landmarks tr landmarks fw fh lb rb))"
      by (rule process_landmarks_stages)
    from r assms have "gd2 = gd1" by simp
    then show ?thesis
      using left_eye_data(1) [OF l] combine_gaze_data(2) [OF c] map_to_screen_frame(7) [OF m]
      by (simp add: GazeData_init_def)
  qed
qed

lemmas frame_defs = process_frame_def process_landmarks_def left_eye_def right_eye_def
  combine_gaze_def map_to_screen_def detect_blink_def detect_blink_try_def
  get_iris_position_def get_iris_position_try_def GazeData_init_def clip_def py_int_def

lemmas tracker_defs = example_tracker_def tracker_after_a_frame_def EyeGazeTracker_init_def
  KalmanFilter2D_update_def KalmanFilter2D_init_def zeros_def

lemma both_eyes_frame:
  "fst (process_frame example_tracker [example_face] 100 100) =
     Inr \<lparr> left_gaze = Some (0, 0.3), right_gaze = Some (0, 0.3), combined_gaze = Some (0, 0.3),
           screen_point = Some (960, 702), left_iris_center = Some (35, 50),
           right_iris_center = Some (65, 50), confidence = 1 \<rparr>"
  by (simp add: frame_defs tracker_defs lookup_defs face_defs index_defs Let_def sqrt_100)

lemma both_eyes_combined_filter:
  "combined_kalman (snd (process_frame example_tracker [example_face] 100 100)) =
     snd (KalmanFilter2D_update (combined_kalman example_tracker) (0, 0.3))"
  by (simp add: frame_defs tracker_defs lookup_defs face_defs index_defs Let_def sqrt_100)

lemma left_eye_only_frame:
  "fst (process_frame example_tracker [right_eye_closed_face] 100 100) =
     Inr \<lparr> left_gaze = Some (0, 0.3), right_gaze = None, combined_gaze = Some (0, 0.3),
           screen_point = Some (960, 702), left_iris_center = Some (35, 50),
           right_iris_center = None, confidence = 0.7 \<rparr>"
  by (simp add: frame_defs tracker_defs lookup_defs face_defs index_defs Let_def sqrt_100)

lemma no_face_frame:
  "process_frame example_tracker [] 100 100 = (Inr GazeData_init, example_tracker)"
  by (simp add: process_frame_def)


lemma degenerate_right_eye_frame:
  "fst (process_frame example_tracker [right_eye_degenerate_face] 100 100) =
     Inr \<lparr> left_gaze = Some (0, 0.3), right_gaze = None, combined_gaze = Some (0, 0.3),
           screen_point = Some (960, 702), left_iris_center = Some (35, 50),
           right_iris_center = None, confidence = 0.7 \<rparr>"
  by (simp add: frame_defs tracker_defs lookup_defs face_defs index_defs Let_def sqrt_100)

lemma eyelid_without_y_frame:
  "fst (process_landmarks example_tracker eyelid_without_y_face 100 100 False False) =
     Inr \<lparr> left_gaze = Some (0, 0.3), right_gaze = Some (0, 0.3), combined_gaze = Some (0, 0.3),
           screen_point = Some (960, 702), left_iris_center = Some (35, 50),
           right_iris_center = Some (65, 50), confidence = 1 \<rparr>"
  by (simp add: frame_defs tracker_defs lookup_defs face_defs index_defs Let_def sqrt_100)

section \<open>Combining the eyes, the screen point, omitted eyes and blinks\<close>

text \<open>
  C5. Combining the eyes in a frame that \<open>process_frame\<close> returns. With both filtered eye
  vectors present, the combined gaze is what the combined Kalman filter's \<^verbatim>\<open>update\<close> returns
  on their componentwise average, the combined filter is the one after that update, and the
  confidence is 1.0. With exactly one eye vector, the combined gaze is that vector, the
  combined filter is untouched, and the confidence is 0.7. With neither, there is no
  combined gaze and no screen point, the confidence stays 0.0, and neither the combined
  filter nor the previous screen point changes.
\<close>

theorem combined_gaze_and_confidence:
  assumes "process_frame tr faces fw fh = (Inr gd, tr')"
  shows "(\<forall>l r. left_gaze gd = Some l \<and> right_gaze gd = Some r \<longrightarrow>
            (\<exists>c. combined_gaze gd = Some c \<and>
                 KalmanFilter2D_update (combined_kalman tr) ((fst l + fst r) / 2, (snd l + snd r) / 2)
                   = (Inr c, combined_kalman tr')) \<and> confidence gd = 1)
       \<and> (\<forall>l. left_gaze gd = Some l \<and> right_gaze gd = None \<longrightarrow>
            combined_gaze gd = Some l \<and> combined_kalman tr' = combined_kalman tr \<and> confidence gd = 0.7)
       \<and> (\<forall>r. left_gaze gd = None \<and> right_gaze gd = Some r \<longrightarrow>
            combined_gaze gd = Some r \<and> combined_kalman tr' = combined_kalman tr \<and> confidence gd = 0.7)
       \<and> (left_gaze gd = None \<and> right_gaze gd = None \<longrightarrow>
            combined_gaze gd = None \<and> screen_point gd = None \<and> confidence gd = 0 \<and>
            combined_kalman tr' = combined_kalman tr \<and> prev_screen_point tr' = prev_screen_point tr)"
proof -
  from process_frame_cases [OF assms] show ?thesis
  proof
    assume "faces = [] \<and> gd = GazeData_init \<and> tr' = tr"
    then show ?thesis by (simp add: GazeData_init_def)
  next
    assume "\<exists>landmarks others lb rb. faces = landmarks # others \<and>
             process_landmarks tr landmarks fw fh lb rb = (Inr gd, tr')"
    then obtain landmarks lb rb where
      "process_landmarks tr landmarks fw fh lb rb = (Inr gd, tr')" by blast
    then show ?thesis by (rule process_landmarks_combined)
  qed
qed

text \<open>
  Three frames: both eyes open, the right eye closed, and no face.
\<close>

theorem combined_gaze_and_confidence_witness:
  "(\<exists>gd. process_frame example_tracker [example_face] 100 100 =
            (Inr gd, snd (process_frame example_tracker [example_face] 100 100))
        \<and> left_gaze gd = Some (0, 0.3) \<and> right_gaze gd = Some (0, 0.3)
        \<and> combined_gaze gd = Some (0, 0.3) \<and> confidence gd = 1
        \<and> KalmanFilter2D_update (combined_kalman example_tracker) (0, 0.3) =
            (Inr (0, 0.3), combined_kalman (snd (process_frame example_tracker [example_face] 100 100))))
   \<and> (\<exists>gd. process_frame example_tracker [right_eye_closed_face] 100 100 =
            (Inr gd, snd (process_frame example_tracker [right_eye_closed_face] 100 100))
        \<and> left_gaze gd = Some (0, 0.3) \<and> right_gaze gd = None
        \<and> combined_gaze gd = Some (0, 0.3) \<and> confidence gd = 0.7
        \<and> combined_kalman (snd (process_frame example_tracker [right_eye_closed_face] 100 100)) =
            combined_kalman example_tracker)
   \<and> (\<exists>gd. process_frame example_tracker [] 100 100 = (Inr gd, example_tracker)
        \<and> left_gaze gd = None \<and> right_gaze gd = None
        \<and> combined_gaze gd = None \<and> screen_point gd = None \<and> confidence gd = 0)"
proof -
  define gd1 :: GazeData where "gd1 =
     \<lparr> left_gaze = Some (0, 0.3), right_gaze = Some (0, 0.3), combined_gaze = Some (0, 0.3),
       screen_point = Some (960, 702), left_iris_center = Some (35, 50),
       right_iris_center = Some (65, 50), confidence = 1 \<rparr>"
  define gd2 :: GazeData where "gd2 =
     \<lparr> left_gaze = Some (0, 0.3), right_gaze = None, combined_gaze = Some (0, 0.3),
       screen_point = Some (960, 702), left_iris_center = Some (35, 50),
       right_iris_center = None, confidence = 0.7 \<rparr>"
  have f1: "process_frame example_tracker [example_face] 100 100 =
      (Inr gd1, snd (process_frame example_tracker [example_face] 100 100))"
    using both_eyes_frame by (simp add: gd1_def prod_eq_iff)
  have f2: "process_frame example_tracker [right_eye_closed_face] 100 100 =
      (Inr gd2, snd (process_frame example_tracker [right_eye_closed_face] 100 100))"
    using left_eye_only_frame by (simp add: gd2_def prod_eq_iff)
  have both: "KalmanFilter2D_update (combined_kalman example_tracker) (0, 0.3) =
      (Inr (0, 0.3), combined_kalman (snd (process_frame example_tracker [example_face] 100 100)))
      \<and> confidence gd1 = 1 \<and> combined_gaze gd1 = Some (0, 0.3)"
    using combined_gaze_and_confidence [OF f1, THEN conjunct1, rule_format, of "(0, 0.3)" "(0, 0.3)"]
    by (simp add: gd1_def)
  have left: "combined_gaze gd2 = Some (0, 0.3) \<and> confidence gd2 = 0.7 \<and>
      combined_kalman (snd (process_frame example_tracker [right_eye_closed_face] 100 100)) =
        combined_kalman example_tracker"
    using combined_gaze_and_confidence [OF f2, THEN conjunct2, THEN conjunct1, rule_format,
        of "(0, 0.3)"]
    by (simp add: gd2_def)
  have none: "combined_gaze GazeData_init = None \<and> screen_point GazeData_init = None \<and>
      confidence GazeData_init = 0"
    using combined_gaze_and_confidence [OF no_face_frame] by (simp add: GazeData_init_def)
  have c1: "\<exists>gd. process_frame example_tracker [example_face] 100 100 =
            (Inr gd, snd (process_frame example_tracker [example_face] 100 100))
        \<and> left_gaze gd = Some (0, 0.3) \<and> right_gaze gd = Some (0, 0.3)
        \<and> combined_gaze gd = Some (0, 0.3) \<and> confidence gd = 1
        \<and> KalmanFilter2D_update (combined_kalman example_tracker) (0, 0.3) =
            (Inr (0, 0.3), combined_kalman (snd (process_frame example_tracker [example_face] 100 100)))"
    using f1 both by (intro exI [of _ gd1]) (simp add: gd1_def)
  have c2: "\<exists>gd. process_frame example_tracker [right_eye_closed_face] 100 100 =
            (Inr gd, snd (process_frame example_tracker [right_eye_closed_face] 100 100))
        \<and> left_gaze gd = Some (0, 0.3) \<and> right_gaze gd = None
        \<and> combined_gaze gd = Some (0, 0.3) \<and> confidence gd = 0.7
        \<and> combined_kalman (snd (process_frame example_tracker [right_eye_closed_face] 100 100)) =
            combined_kalman example_tracker"
    using f2 left by (intro exI [of _ gd2]) (simp add: gd2_def)
  have c3: "\<exists>gd. process_frame example_tracker [] 100 100 = (Inr gd, example_tracker)
        \<and> left_gaze gd = None \<and> right_gaze gd = None
        \<and> combined_gaze gd = None \<and> screen_point gd = None \<and> confidence gd = 0"
    using no_face_frame none
    by (intro exI [of _ GazeData_init]) (simp add: GazeData_init_def)
  from c1 c2 c3 show ?thesis by (intro conjI)
qed



text \<open>
  C8. An eye whose corner landmarks are less than one pixel apart: \<open>get_iris_position\<close>
  returns \<^verbatim>\<open>(None, None)\<close> and raises nothing. In \<open>process_frame\<close> the Kalman filter of that
  eye is then the same after the frame as before, whatever else the frame does, and a frame
  that returns has no gaze vector for that eye.
\<close>

theorem degenerate_eye_omitted:
  assumes "outer_idx < length landmarks" and "inner_idx < length landmarks"
    and "lm_x (landmarks ! outer_idx) = Some ox" and "lm_y (landmarks ! outer_idx) = Some oy"
    and "lm_x (landmarks ! inner_idx) = Some ix" and "lm_y (landmarks ! inner_idx) = Some iy"
    and "sqrt ((ix * real_of_int fw - ox * real_of_int fw)\<^sup>2 +
               (iy * real_of_int fh - oy * real_of_int fh)\<^sup>2) < 1"
  shows "get_iris_position tr landmarks outer_idx inner_idx iris_idx fw fh = Inr (None, None)
       \<and> (outer_idx = LEFT_EYE_OUTER \<and> inner_idx = LEFT_EYE_INNER \<longrightarrow>
            left_kalman (snd (process_frame tr (landmarks # others) fw fh)) = left_kalman tr \<and>
            (\<forall>gd. fst (process_frame tr (landmarks # others) fw fh) = Inr gd \<longrightarrow> left_gaze gd = None))
       \<and> (outer_idx = RIGHT_EYE_OUTER \<and> inner_idx = RIGHT_EYE_INNER \<longrightarrow>
            right_kalman (snd (process_frame tr (landmarks # others) fw fh)) = right_kalman tr \<and>
            (\<forall>gd. fst (process_frame tr (landmarks # others) fw fh) = Inr gd \<longrightarrow> right_gaze gd = None))"
proof -
  have none: "get_iris_position t landmarks outer_idx inner_idx j fw fh = Inr (None, None)"
    for t j
    using assms by (rule degenerate_eye)
  obtain lb rb where blink: "detect_blink landmarks fh = Inr (lb, rb)"
    using detect_blink_returns by blast
  have frame: "process_frame tr (landmarks # others) fw fh =
      process_landmarks tr landmarks fw fh lb rb"
    using blink by (simp add: process_frame_def)
  have left: "left_kalman (snd (process_frame tr (landmarks # others) fw fh)) = left_kalman tr \<and>
      (\<forall>gd. fst (process_frame tr (landmarks # others) fw fh) = Inr gd \<longrightarrow> left_gaze gd = None)"
    if "outer_idx = LEFT_EYE_OUTER \<and> inner_idx = LEFT_EYE_INNER"
  proof -
    have "left_eye tr landmarks fw fh lb GazeData_init = (Inr GazeData_init, tr)"
      using none [of tr LEFT_IRIS_CENTER] that by (simp add: left_eye_no_gaze)
    from process_landmarks_left_unchanged [OF this] show ?thesis
      unfolding frame by blast
  qed
  have right: "right_kalman (snd (process_frame tr (landmarks # others) fw fh)) = right_kalman tr \<and>
      (\<forall>gd. fst (process_frame tr (landmarks # others) fw fh) = Inr gd \<longrightarrow> right_gaze gd = None)"
    if "outer_idx = RIGHT_EYE_OUTER \<and> inner_idx = RIGHT_EYE_INNER"
  proof -
    have "right_eye t landmarks fw fh rb g = (Inr g, t)" for t g
      using none [of t RIGHT_IRIS_CENTER] that by (simp add: right_eye_no_gaze)
    from process_landmarks_right_unchanged [of landmarks fw fh rb, OF this] show ?thesis
      unfolding frame by blast
  qed
  from none left right show ?thesis by blast
qed

text \<open>
  A face whose right eye has both corners at the same place: the left eye is estimated, the
  right eye is omitted.
\<close>

theorem degenerate_eye_omitted_witness:
  "get_iris_position example_tracker right_eye_degenerate_face
       RIGHT_EYE_OUTER RIGHT_EYE_INNER RIGHT_IRIS_CENTER 100 100 = Inr (None, None)
   \<and> right_kalman (snd (process_frame example_tracker [right_eye_degenerate_face] 100 100)) =
       right_kalman example_tracker
   \<and> (\<exists>gd. fst (process_frame example_tracker [right_eye_degenerate_face] 100 100) = Inr gd
          \<and> right_gaze gd = None \<and> left_gaze gd = Some (0, 0.3))"
proof -
  have len: "RIGHT_EYE_OUTER < length right_eye_degenerate_face"
    "RIGHT_EYE_INNER < length right_eye_degenerate_face"
    by (simp_all add: face_defs index_defs)
  have outer: "lm_x (right_eye_degenerate_face ! RIGHT_EYE_OUTER) = Some 0.6"
    "lm_y (right_eye_degenerate_face ! RIGHT_EYE_OUTER) = Some 0.5"
    by (simp_all add: face_defs index_defs)
  have inner: "lm_x (right_eye_degenerate_face ! RIGHT_EYE_INNER) = Some 0.6"
    "lm_y (right_eye_degenerate_face ! RIGHT_EYE_INNER) = Some 0.5"
    by (simp_all add: face_defs index_defs)
  have width: "sqrt ((0.6 * real_of_int 100 - 0.6 * real_of_int 100)\<^sup>2 +
                     (0.5 * real_of_int 100 - 0.5 * real_of_int 100)\<^sup>2) < 1"
    by simp
  note th = degenerate_eye_omitted [OF len outer inner width,
      of example_tracker RIGHT_IRIS_CENTER "[]"]
  have "right_gaze
      \<lparr> left_gaze = Some (0, 0.3), right_gaze = None, combined_gaze = Some (0, 0.3),
        screen_point = Some (960, 702), left_iris_center = Some (35, 50),
        right_iris_center = None, confidence = 0.7 \<rparr> = None"
    using th degenerate_right_eye_frame by simp
  with th degenerate_right_eye_frame show ?thesis by simp
qed

text \<open>
  C10. When one of the four eyelid landmarks is beyond the end of the landmark list or has
  no \<^verbatim>\<open>y\<close> attribute, \<open>detect_blink\<close> returns \<^verbatim>\<open>(False, False)\<close>, and \<open>process_frame\<close>
  goes on as for two open eyes: the gaze of both eyes is estimated.
\<close>

theorem blink_lookup_failure_means_open:
  assumes "i \<in> {LEFT_EYE_TOP, LEFT_EYE_BOTTOM, RIGHT_EYE_TOP, RIGHT_EYE_BOTTOM}"
    and "length landmarks \<le> i \<or> lm_y (landmarks ! i) = None"
  shows "detect_blink landmarks fh = Inr (False, False)
       \<and> process_frame tr (landmarks # others) fw fh =
           process_landmarks tr landmarks fw fh False False"
proof -
  have "\<exists>e. detect_blink_try landmarks fh = Inl e"
    using assms
    by (auto simp add: detect_blink_try_def lookup_defs Let_def split: option.splits)
  then obtain e where e: "detect_blink_try landmarks fh = Inl e" by blast
  from detect_blink_try_errors [OF e] e have "detect_blink landmarks fh = Inr (False, False)"
    by (auto simp add: detect_blink_def)
  then show ?thesis by (simp add: process_frame_def)
qed

text \<open>
  A face whose left upper eyelid landmark has no \<^verbatim>\<open>y\<close>: both eyes get a gaze vector.
\<close>

theorem blink_lookup_failure_means_open_witness:
  "LEFT_EYE_TOP < length eyelid_without_y_face
   \<and> lm_y (eyelid_without_y_face ! LEFT_EYE_TOP) = None
   \<and> detect_blink eyelid_without_y_face 100 = Inr (False, False)
   \<and> (\<exists>gd. fst (process_frame example_tracker [eyelid_without_y_face] 100 100) = Inr gd
          \<and> left_gaze gd = Some (0, 0.3) \<and> right_gaze gd = Some (0, 0.3))"
proof -
  have missing: "LEFT_EYE_TOP < length eyelid_without_y_face"
    "lm_y (eyelid_without_y_face ! LEFT_EYE_TOP) = None"
    by (simp_all add: face_defs index_defs)
  have i: "LEFT_EYE_TOP \<in> {LEFT_EYE_TOP, LEFT_EYE_BOTTOM, RIGHT_EYE_TOP, RIGHT_EYE_BOTTOM}"
    by simp
  have fails: "length eyelid_without_y_face \<le> LEFT_EYE_TOP \<or>
      lm_y (eyelid_without_y_face ! LEFT_EYE_TOP) = None"
    using missing by simp
  note th = blink_lookup_failure_means_open [OF i fails, of 100 example_tracker "[]" 100]
  from th missing eyelid_without_y_frame show ?thesis by simp
qed

section \<open>Properties of the calibration tool\<close>





text \<open>
  A fit with fewer points than the mode needs changes nothing in the tool and returns
  \<^verbatim>\<open>None\<close>, the value that a fit that succeeded returns as well.
\<close>

lemma fit_refused_unchanged:
  assumes "length (calibration_data ct) < (if mode ct = POLYNOMIAL then 6 else 4)"
  shows "compute_calibration lstsq ct = (Inr (), ct)"
  using assms by (simp add: compute_calibration_def Let_def)

lemma five_points_collected:
  "collect_all_points (five_point_tool\<lparr>calibration_data := []\<rparr>)
       (calibration_points five_point_tool) five_fixations =
     Some (Inr True,
           five_point_tool\<lparr>calibration_data :=
             [((192, 108), [(0, 0)]), ((1728, 108), [(0, 0)]), ((960, 540), [(0, 0)]),
              ((192, 972), [(0, 0)]), ((1728, 972), [(0, 0)])]\<rparr>,
           [])"
  by (simp add: five_point_tool_def five_fixations_def CalibrationTool_init_def
      generate_points_def py_int_def Let_def)

text \<open>
  C3. The specification has a fit with too few points refuse, return failure and leave the
  stored model unchanged. The code refuses and leaves the model unchanged
  (\<open>fit_refused_unchanged\<close>), and no failure is returned: with five points in polynomial
  mode, which needs six, \<open>run_calibration\<close> collects the five points, the fit refuses, and
  \<open>run_calibration\<close> returns \<^verbatim>\<open>True\<close> with no model stored, whatever \<^verbatim>\<open>lstsq\<close> would do.
\<close>

theorem refused_fit_reported_as_success:
  "run_calibration lstsq five_point_tool five_fixations =
     Some (True,
           five_point_tool\<lparr>calibration_data :=
             [((192, 108), [(0, 0)]), ((1728, 108), [(0, 0)]), ((960, 540), [(0, 0)]),
              ((192, 972), [(0, 0)]), ((1728, 972), [(0, 0)])]\<rparr>)
   \<and> mode five_point_tool = POLYNOMIAL
   \<and> transform_x five_point_tool = None \<and> transform_y five_point_tool = None
   \<and> transform_matrix five_point_tool = None"
proof -
  define ct1 where "ct1 = five_point_tool\<lparr>calibration_data :=
             [((192, 108), [(0, 0)]), ((1728, 108), [(0, 0)]), ((960, 540), [(0, 0)]),
              ((192, 972), [(0, 0)]), ((1728, 972), [(0, 0)])]\<rparr>"
  have m: "mode five_point_tool = POLYNOMIAL"
    "transform_x five_point_tool = None" "transform_y five_point_tool = None"
    "transform_matrix five_point_tool = None"
    by (simp_all add: five_point_tool_def CalibrationTool_init_def)
  have "length (calibration_data ct1) < (if mode ct1 = POLYNOMIAL then 6 else 4)"
    using m by (simp add: ct1_def)
  then have fit: "compute_calibration lstsq ct1 = (Inr (), ct1)"
    by (rule fit_refused_unchanged)
  have "run_calibration lstsq five_point_tool five_fixations = Some (True, ct1)"
    using five_points_collected fit
    by (simp add: run_calibration_def Let_def ct1_def [symmetric])
  with m show ?thesis by (simp add: ct1_def)
qed

section \<open>Properties of the quick calibration\<close>









end
